theory Spec2Isabelle
  imports Main "HOL-Library.Char_ord" "HOL-Library.List_Lexorder"
begin

section \<open>Python values and the operations the executor uses on them\<close>

text \<open>
  The functions of \<^verbatim>\<open>vk_executor.py\<close> work on what \<^verbatim>\<open>json.loads\<close> returns: nested
  dicts and lists of strings, integers, booleans and \<^verbatim>\<open>None\<close>. A dict is an association
  list in insertion order, read with \<open>map_of\<close>; a dict of Python is one whose keys are
  distinct. Strings are ASCII strings, integers are unbounded. JSON numbers with a
  fraction or an exponent (Python floats) are not part of the model. The one method of
  the library whose result is read beyond ASCII, \<^verbatim>\<open>str.upper\<close>, is not translated: it is
  a parameter of the client.
\<close>

datatype json =
    JNull
  | JBool bool
  | JInt int
  | JStr string
  | JList "json list"
  | JDict "(string \<times> json) list"

type_synonym pydict = "(string \<times> json) list"

text \<open>
  Exceptions are values. \<open>RuntimeError\<close> is what \<^verbatim>\<open>_call_tool\<close> raises on an MCP error
  envelope; it also stands for every other \<^verbatim>\<open>Exception\<close> a client call may raise, of
  which only \<^verbatim>\<open>str(e)\<close> is ever read. The message texts are those of CPython 3.12.
\<close>

datatype py_exn =
    KeyError string
  | TypeError string
  | AttributeError string
  | RuntimeError string

definition quoted :: "string \<Rightarrow> string" where
  "quoted s = CHR 0x27 # s @ [CHR 0x27]"

fun type_name :: "json \<Rightarrow> string" where
  "type_name JNull = ''NoneType''"
| "type_name (JBool b) = ''bool''"
| "type_name (JInt i) = ''int''"
| "type_name (JStr s) = ''str''"
| "type_name (JList xs) = ''list''"
| "type_name (JDict d) = ''dict''"

text \<open>\<^verbatim>\<open>d.get(k, default)\<close> and \<^verbatim>\<open>k in d\<close> on a dict.\<close>

definition dict_get :: "pydict \<Rightarrow> string \<Rightarrow> json \<Rightarrow> json" where
  "dict_get d k dflt = (case map_of d k of None \<Rightarrow> dflt | Some v \<Rightarrow> v)"

definition dict_has :: "pydict \<Rightarrow> string \<Rightarrow> bool" where
  "dict_has d k = (map_of d k \<noteq> None)"

text \<open>\<^verbatim>\<open>d[k]\<close> on a dict: \<^verbatim>\<open>KeyError\<close> when the key is missing.\<close>

definition dict_getitem :: "pydict \<Rightarrow> string \<Rightarrow> py_exn + json" where
  "dict_getitem d k = (case map_of d k of None \<Rightarrow> Inl (KeyError k) | Some v \<Rightarrow> Inr v)"

text \<open>\<^verbatim>\<open>x[k]\<close> with a string key \<open>k\<close>, on any value.\<close>

fun py_getitem :: "json \<Rightarrow> string \<Rightarrow> py_exn + json" where
  "py_getitem (JDict d) k = dict_getitem d k"
| "py_getitem (JList xs) k = Inl (TypeError ''list indices must be integers or slices, not str'')"
| "py_getitem (JStr s) k = Inl (TypeError (''string indices must be integers, not '' @ quoted ''str''))"
| "py_getitem v k = Inl (TypeError (quoted (type_name v) @ '' object is not subscriptable''))"

text \<open>\<^verbatim>\<open>x.get(k, default)\<close> on any value: only a dict has the method.\<close>

fun py_get :: "json \<Rightarrow> string \<Rightarrow> json \<Rightarrow> py_exn + json" where
  "py_get (JDict d) k dflt = Inr (dict_get d k dflt)"
| "py_get v k dflt =
     Inl (AttributeError (quoted (type_name v) @ '' object has no attribute '' @ quoted ''get''))"

text \<open>
  \<^verbatim>\<open>for e in x\<close>: a list yields its elements, a dict its keys, a string its characters
  (each a string of length one); nothing else can be iterated. \<^verbatim>\<open>len(x)\<close> is defined on
  the same values and counts what the iteration yields.
\<close>

fun py_iter :: "json \<Rightarrow> py_exn + json list" where
  "py_iter (JList xs) = Inr xs"
| "py_iter (JDict d) = Inr (map (\<lambda>kv. JStr (fst kv)) d)"
| "py_iter (JStr s) = Inr (map (\<lambda>c. JStr [c]) s)"
| "py_iter v = Inl (TypeError (quoted (type_name v) @ '' object is not iterable''))"

fun py_len :: "json \<Rightarrow> py_exn + int" where
  "py_len (JList xs) = Inr (int (length xs))"
| "py_len (JDict d) = Inr (int (length d))"
| "py_len (JStr s) = Inr (int (length s))"
| "py_len v = Inl (TypeError (''object of type '' @ quoted (type_name v) @ '' has no len()''))"

text \<open>Truth value of a value, as \<^verbatim>\<open>if x:\<close> reads it.\<close>

fun py_truthy :: "json \<Rightarrow> bool" where
  "py_truthy JNull = False"
| "py_truthy (JBool b) = b"
| "py_truthy (JInt i) = (i \<noteq> 0)"
| "py_truthy (JStr s) = (s \<noteq> [])"
| "py_truthy (JList xs) = (xs \<noteq> [])"
| "py_truthy (JDict d) = (d \<noteq> [])"

text \<open>
  Hashing, as a set membership test or a dict key needs it: a list or a dict is
  unhashable. \<^verbatim>\<open>True\<close> and \<^verbatim>\<open>1\<close> (and \<^verbatim>\<open>False\<close> and \<^verbatim>\<open>0\<close>) are equal with equal
  hashes, so they are the same key; \<open>hash_key\<close> returns the key a value stands for.
\<close>

fun hash_key :: "json \<Rightarrow> py_exn + json" where
  "hash_key (JList xs) = Inl (TypeError (''unhashable type: '' @ quoted ''list''))"
| "hash_key (JDict d) = Inl (TypeError (''unhashable type: '' @ quoted ''dict''))"
| "hash_key (JBool b) = Inr (JInt (if b then 1 else 0))"
| "hash_key v = Inr v"

text \<open>\<^verbatim>\<open>x in S\<close> for a set \<open>S\<close> of strings: \<open>x\<close> is hashed first.\<close>

definition in_str_set :: "json \<Rightarrow> string list \<Rightarrow> py_exn + bool" where
  "in_str_set x S =
     (case hash_key x of
        Inl e \<Rightarrow> Inl e
      | Inr k \<Rightarrow> Inr (case k of JStr s \<Rightarrow> s \<in> set S | _ \<Rightarrow> False))"

text \<open>Sequencing of computations that may raise.\<close>

definition and_then :: "py_exn + 'a \<Rightarrow> ('a \<Rightarrow> py_exn + 'b) \<Rightarrow> py_exn + 'b" where
  "and_then m f = (case m of Inl e \<Rightarrow> Inl e | Inr v \<Rightarrow> f v)"

subsection \<open>\<^verbatim>\<open>str\<close> and \<^verbatim>\<open>repr\<close>\<close>

definition digit_char :: "nat \<Rightarrow> char" where
  "digit_char n = char_of (48 + n)"

fun str_nat :: "nat \<Rightarrow> string" where
  "str_nat n = (if n < 10 then [digit_char n] else str_nat (n div 10) @ [digit_char (n mod 10)])"

declare str_nat.simps [simp del]

definition str_int :: "int \<Rightarrow> string" where
  "str_int i = (if i < 0 then CHR ''-'' # str_nat (nat (- i)) else str_nat (nat i))"

definition hex_char :: "nat \<Rightarrow> char" where
  "hex_char n = (if n < 10 then char_of (48 + n) else char_of (87 + n))"

text \<open>
  \<^verbatim>\<open>repr\<close> of a string: in single quotes, unless it holds a single quote and no double
  quote; the quote in use and the backslash are escaped, as are control characters.
\<close>

definition repr_char :: "char \<Rightarrow> char \<Rightarrow> string" where
  "repr_char q c =
     (if c = q \<or> c = CHR 0x5C then [CHR 0x5C, c]
      else if c = CHR 0x09 then [CHR 0x5C, CHR ''t'']
      else if c = CHR 0x0A then [CHR 0x5C, CHR ''n'']
      else if c = CHR 0x0D then [CHR 0x5C, CHR ''r'']
      else if (of_char c :: nat) < 32 \<or> (of_char c :: nat) = 127
        then [CHR 0x5C, CHR ''x'', hex_char (of_char c div 16), hex_char (of_char c mod 16)]
      else [c])"

definition repr_str :: "string \<Rightarrow> string" where
  "repr_str s =
     (let q = (if CHR 0x27 \<in> set s \<and> CHR 0x22 \<notin> set s then CHR 0x22 else CHR 0x27)
      in q # concat (map (repr_char q) s) @ [q])"

fun join :: "string \<Rightarrow> string list \<Rightarrow> string" where
  "join sep [] = []"
| "join sep [x] = x"
| "join sep (x # y # ys) = x @ sep @ join sep (y # ys)"

primrec py_repr :: "json \<Rightarrow> string" where
  "py_repr JNull = ''None''"
| "py_repr (JBool b) = (if b then ''True'' else ''False'')"
| "py_repr (JInt i) = str_int i"
| "py_repr (JStr s) = repr_str s"
| "py_repr (JList xs) = ''['' @ join '', '' (map py_repr xs) @ '']''"
| "py_repr (JDict d) =
     ''{'' @ join '', '' (map (\<lambda>kv. repr_str (fst kv) @ '': '' @ snd kv) (map (map_prod id py_repr) d)) @ ''}''"

text \<open>\<^verbatim>\<open>str(x)\<close>, which an f-string applies to a value: a string is itself.\<close>

definition py_str :: "json \<Rightarrow> string" where
  "py_str x = (case x of JStr s \<Rightarrow> s | _ \<Rightarrow> py_repr x)"

text \<open>\<^verbatim>\<open>str(e)\<close> of an exception: a \<^verbatim>\<open>KeyError\<close> shows the \<^verbatim>\<open>repr\<close> of its key.\<close>

fun exn_str :: "py_exn \<Rightarrow> string" where
  "exn_str (KeyError k) = repr_str k"
| "exn_str (TypeError m) = m"
| "exn_str (AttributeError m) = m"
| "exn_str (RuntimeError m) = m"

section \<open>Constants\<close>

text \<open>
  The three constants are sets of strings in the source. \<open>VALID_EXECUTORS\<close> and
  \<open>VALID_PRIORITIES\<close> are only tested for membership and sorted for a message, so the
  order written here is immaterial. \<open>REQUIRED_MANIFEST_KEYS\<close> is iterated, in an order
  Python does not fix: \<open>validate_manifest\<close> takes that order as a parameter. The fourth
  constant of the source, \<^verbatim>\<open>REQUIRED_TASK_KEYS\<close>, is used by none of its functions.
\<close>

definition VALID_EXECUTORS :: "string list" where
  "VALID_EXECUTORS =
     [''claude-code'', ''codex'', ''gemini'', ''amp'', ''copilot'',
      ''cursor_agent'', ''qwen-code'', ''droid'', ''opencode'']"

definition VALID_PRIORITIES :: "string list" where
  "VALID_PRIORITIES = [''Urgent'', ''High'', ''Medium'', ''Low'']"

definition REQUIRED_MANIFEST_KEYS :: "string list" where
  "REQUIRED_MANIFEST_KEYS = [''version'', ''tasks'', ''project'']"

section \<open>Validator\<close>

text \<open>
  One iteration of the loop over \<^verbatim>\<open>enumerate(tasks)\<close>. The test
  \<^verbatim>\<open>task["executor"] not in VALID_EXECUTORS\<close> hashes the value, and raises
  \<^verbatim>\<open>TypeError\<close> when it is a list or a dict; so does the test of the priority.
  \<open>not_in_set task k S\<close> is \<^verbatim>\<open>k in task and task[k] not in S\<close>: it returns the
  offending value, if any.
\<close>

definition not_in_set :: "pydict \<Rightarrow> string \<Rightarrow> string list \<Rightarrow> py_exn + json option" where
  "not_in_set task k S =
     (case map_of task k of
        None \<Rightarrow> Inr None
      | Some v \<Rightarrow> and_then (in_str_set v S) (\<lambda>b. Inr (if b then None else Some v)))"

definition invalid_msg :: "nat \<Rightarrow> string \<Rightarrow> json \<Rightarrow> string list \<Rightarrow> string" where
  "invalid_msg i what v S =
     ''Task '' @ str_nat i @ '' has invalid '' @ what @ '': '' @ quoted (py_str v) @
     ''. Must be one of: '' @ join '', '' (sort S)"

definition validate_task :: "nat \<Rightarrow> json \<Rightarrow> string list \<Rightarrow> py_exn + string list" where
  "validate_task i task errors =
     (case task of
        JDict t \<Rightarrow>
          (let errors1 =
                 (if \<not> dict_has t ''title''
                  then errors @ [''Task '' @ str_nat i @ '' missing required key: '' @ quoted ''title'']
                  else errors)
           in and_then (not_in_set t ''executor'' VALID_EXECUTORS) (\<lambda>bad_executor.
              let errors2 =
                    (case bad_executor of
                       Some v \<Rightarrow> errors1 @ [invalid_msg i ''executor'' v VALID_EXECUTORS]
                     | None \<Rightarrow> errors1)
              in and_then (not_in_set t ''priority'' VALID_PRIORITIES) (\<lambda>bad_priority.
                 Inr (case bad_priority of
                        Some v \<Rightarrow> errors2 @ [invalid_msg i ''priority'' v VALID_PRIORITIES]
                      | None \<Rightarrow> errors2))))
      | _ \<Rightarrow> Inr (errors @ [''Task '' @ str_nat i @ '' is not a dict'']))"

fun validate_tasks :: "nat \<Rightarrow> json list \<Rightarrow> string list \<Rightarrow> py_exn + string list" where
  "validate_tasks i [] errors = Inr errors"
| "validate_tasks i (task # tasks) errors =
     and_then (validate_task i task errors) (validate_tasks (Suc i) tasks)"

text \<open>
  \<open>validate_manifest key_order manifest\<close>: \<open>key_order\<close> is the order in which the set
  \<open>REQUIRED_MANIFEST_KEYS\<close> is iterated. The result is \<open>Inr\<close> of the list of messages,
  or \<open>Inl\<close> of the exception that leaves the function.
\<close>

definition validate_manifest :: "string list \<Rightarrow> pydict \<Rightarrow> py_exn + string list" where
  "validate_manifest key_order manifest =
     (let errors =
            map (\<lambda>key. ''Missing required key: '' @ quoted key)
              (filter (\<lambda>key. \<not> dict_has manifest key) key_order)
      in case map_of manifest ''tasks'' of
           None \<Rightarrow> Inr errors
         | Some tasks \<Rightarrow>
             (case tasks of
                JList ts \<Rightarrow>
                  if length ts = 0 then Inr (errors @ [''No tasks found -- tasks list is empty''])
                  else validate_tasks 0 ts errors
              | _ \<Rightarrow> Inr (errors @ [quoted ''tasks'' @ '' must be a list''])))"

section \<open>Planner\<close>

record plan_summary =
  total_tasks :: int
  total_subtasks :: int
  total_workspaces :: int

record plan =
  steps :: "json list"
  summary :: plan_summary

text \<open>The two dict literals a step is built from.\<close>

definition create_task_step :: "json \<Rightarrow> json \<Rightarrow> json \<Rightarrow> json \<Rightarrow> json \<Rightarrow> json" where
  "create_task_step title description priority tags parent_title =
     JDict [(''action'', JStr ''create_task''), (''title'', title),
            (''description'', description), (''priority'', priority),
            (''tags'', tags), (''parent_title'', parent_title)]"

definition start_workspace_step :: "json \<Rightarrow> json \<Rightarrow> json \<Rightarrow> json \<Rightarrow> json" where
  "start_workspace_step title executor repo branch =
     JDict [(''action'', JStr ''start_workspace''), (''title'', title),
            (''executor'', executor), (''repo'', repo), (''base_branch'', branch)]"

text \<open>\<^verbatim>\<open>sub if isinstance(sub, str) else sub.get("title", "")\<close>\<close>

definition subtask_title :: "json \<Rightarrow> py_exn + json" where
  "subtask_title sub = (case sub of JStr s \<Rightarrow> Inr sub | _ \<Rightarrow> py_get sub ''title'' (JStr ''''))"

text \<open>
  The body of the loop over \<^verbatim>\<open>task.get("subtasks", [])\<close>. The state of the loops is
  the pair of \<^verbatim>\<open>steps\<close> and \<^verbatim>\<open>total_subtasks\<close>.
\<close>

definition plan_subtask :: "json \<Rightarrow> json \<Rightarrow> json list \<times> int \<Rightarrow> py_exn + json list \<times> int" where
  "plan_subtask task sub st =
     and_then (subtask_title sub) (\<lambda>sub_title.
     and_then (py_getitem task ''title'') (\<lambda>title.
     and_then (py_get task ''priority'' (JStr ''Medium'')) (\<lambda>priority.
     and_then (py_get task ''tags'' (JList [])) (\<lambda>tags.
     and_then (py_getitem task ''title'') (\<lambda>parent_title.
     Inr (fst st @ [create_task_step sub_title (JStr (''Subtask of: '' @ py_str title))
                      priority tags parent_title],
          snd st + 1))))))"

fun plan_subtasks :: "json \<Rightarrow> json list \<Rightarrow> json list \<times> int \<Rightarrow> py_exn + json list \<times> int" where
  "plan_subtasks task [] st = Inr st"
| "plan_subtasks task (sub # subs) st = and_then (plan_subtask task sub st) (plan_subtasks task subs)"

text \<open>The body of the loop over \<^verbatim>\<open>tasks\<close>.\<close>

definition plan_task ::
  "json \<Rightarrow> json \<Rightarrow> json \<Rightarrow> json \<Rightarrow> json list \<times> int \<Rightarrow> py_exn + json list \<times> int" where
  "plan_task default_executor default_repo default_branch task st =
     and_then (py_get task ''executor'' default_executor) (\<lambda>executor.
     and_then (py_get task ''repo'' default_repo) (\<lambda>repo.
     and_then (py_get task ''base_branch'' default_branch) (\<lambda>branch.
     and_then (py_getitem task ''title'') (\<lambda>title.
     and_then (py_get task ''description'' (JStr [])) (\<lambda>description.
     and_then (py_get task ''priority'' (JStr ''Medium'')) (\<lambda>priority.
     and_then (py_get task ''tags'' (JList [])) (\<lambda>tags.
     and_then (py_getitem task ''title'') (\<lambda>title2.
     and_then (py_get task ''subtasks'' (JList [])) (\<lambda>subtasks.
     and_then (py_iter subtasks) (\<lambda>subs.
     plan_subtasks task subs
       (fst st @ [create_task_step title description priority tags JNull,
                  start_workspace_step title2 executor repo branch],
        snd st)))))))))))"

fun plan_tasks ::
  "json \<Rightarrow> json \<Rightarrow> json \<Rightarrow> json list \<Rightarrow> json list \<times> int \<Rightarrow> py_exn + json list \<times> int" where
  "plan_tasks de dr db [] st = Inr st"
| "plan_tasks de dr db (task # tasks) st =
     and_then (plan_task de dr db task st) (plan_tasks de dr db tasks)"

text \<open>
  \<^verbatim>\<open>sum(1 for r in rs if r[k] == v)\<close> and \<^verbatim>\<open>len([r for r in rs if r[k] == v])\<close>, for a
  string \<open>v\<close>: the subscription raises on an element that is not a dict or lacks the key.
\<close>

fun count_where :: "json list \<Rightarrow> string \<Rightarrow> string \<Rightarrow> py_exn + int" where
  "count_where [] k v = Inr 0"
| "count_where (r # rs) k v =
     and_then (py_getitem r k) (\<lambda>x.
     and_then (count_where rs k v) (\<lambda>n. Inr ((if x = JStr v then 1 else 0) + n)))"

definition plan_execution :: "pydict \<Rightarrow> py_exn + plan" where
  "plan_execution manifest =
     (let tasks = dict_get manifest ''tasks'' (JList []);
          defaults = dict_get manifest ''defaults'' (JDict [])
      in and_then (py_get defaults ''executor'' (JStr ''claude-code'')) (\<lambda>default_executor.
         and_then (py_get defaults ''repo'' (JStr [])) (\<lambda>default_repo.
         and_then (py_get defaults ''base_branch'' (JStr ''main'')) (\<lambda>default_branch.
         and_then (py_iter tasks) (\<lambda>task_list.
         and_then (plan_tasks default_executor default_repo default_branch task_list ([], 0))
           (\<lambda>st.
         and_then (py_len tasks) (\<lambda>len_tasks.
         and_then (count_where (fst st) ''action'' ''start_workspace'') (\<lambda>len_workspaces.
         Inr \<lparr>steps = fst st,
              summary = \<lparr>total_tasks = len_tasks, total_subtasks = snd st,
                         total_workspaces = len_workspaces\<rparr>\<rparr>))))))))"

section \<open>Remote client\<close>

text \<open>
  \<open>execute_plan\<close> is given a client object and calls two of its methods. A client is
  modelled by its state \<open>'c\<close> and the two methods as functions of the state that return
  the outcome of the call, a response or an exception, and the next state. This covers
  the real client, whose state is the child process and the request counter, and the
  mocks of the tests.
\<close>

record 'c client =
  client_create_task :: "'c \<Rightarrow> json \<Rightarrow> json \<Rightarrow> json \<Rightarrow> (py_exn + json) \<times> 'c"
  client_start_workspace ::
    "'c \<Rightarrow> json \<Rightarrow> json \<Rightarrow> json \<Rightarrow> json \<Rightarrow> json \<Rightarrow> (py_exn + json) \<times> 'c"

subsection \<open>\<^verbatim>\<open>VKMcpClient\<close>\<close>

text \<open>
  \<^verbatim>\<open>executor.upper()\<close>. Only a string has the method. On a string it is \<^verbatim>\<open>str.upper\<close> of
  Python's library, which follows the case mappings of Unicode (it may change the length
  of a string); it is the parameter \<open>str_upper\<close> here, as the transport is below.
\<close>

definition py_upper :: "(string \<Rightarrow> string) \<Rightarrow> json \<Rightarrow> py_exn + json" where
  "py_upper str_upper x =
     (case x of
        JStr s \<Rightarrow> Inr (JStr (str_upper s))
      | _ \<Rightarrow> Inl (AttributeError
                 (quoted (type_name x) @ '' object has no attribute '' @ quoted ''upper'')))"

text \<open>The argument dict \<^verbatim>\<open>start_workspace\<close> builds for the remote call.\<close>

definition start_workspace_args ::
  "(string \<Rightarrow> string) \<Rightarrow> json \<Rightarrow> json \<Rightarrow> json \<Rightarrow> json \<Rightarrow> json \<Rightarrow> py_exn + pydict" where
  "start_workspace_args str_upper task_id title executor repo_id base_branch =
     and_then (py_upper str_upper executor) (\<lambda>upper.
     let args = [(''title'', title), (''executor'', upper),
                 (''repos'',
                  if py_truthy repo_id
                  then JList [JDict [(''repo_id'', repo_id), (''base_branch'', base_branch)]]
                  else JList [])]
     in Inr (if py_truthy task_id then args @ [(''issue_id'', task_id)] else args))"

text \<open>
  \<^verbatim>\<open>_call_tool\<close> talks to the child process; it is a parameter here, a function of the
  client's state, the tool's name and the argument dict.
\<close>

type_synonym 's call_tool = "'s \<Rightarrow> string \<Rightarrow> json \<Rightarrow> (py_exn + json) \<times> 's"

definition VKMcpClient_create_task ::
  "'s call_tool \<Rightarrow> 's \<Rightarrow> json \<Rightarrow> json \<Rightarrow> json \<Rightarrow> (py_exn + json) \<times> 's" where
  "VKMcpClient_create_task call_tool self project_id title description =
     call_tool self ''create_issue''
       (JDict [(''project_id'', project_id), (''title'', title), (''description'', description)])"

definition VKMcpClient_start_workspace ::
  "(string \<Rightarrow> string) \<Rightarrow> 's call_tool \<Rightarrow> 's \<Rightarrow> json \<Rightarrow> json \<Rightarrow> json \<Rightarrow> json \<Rightarrow> json \<Rightarrow>
     (py_exn + json) \<times> 's" where
  "VKMcpClient_start_workspace str_upper call_tool self task_id title executor repo_id base_branch =
     (case start_workspace_args str_upper task_id title executor repo_id base_branch of
        Inl e \<Rightarrow> (Inl e, self)
      | Inr args \<Rightarrow> call_tool self ''start_workspace_session'' (JDict args))"

definition VKMcpClient :: "(string \<Rightarrow> string) \<Rightarrow> 's call_tool \<Rightarrow> 's client" where
  "VKMcpClient str_upper call_tool =
     \<lparr>client_create_task = VKMcpClient_create_task call_tool,
      client_start_workspace = VKMcpClient_start_workspace str_upper call_tool\<rparr>"

section \<open>Executor\<close>

text \<open>
  \<^verbatim>\<open>title_to_task_id\<close>, a dict keyed by titles: a map from keys (\<open>hash_key\<close>) to
  identifiers. Reading or writing it under an unhashable title raises \<^verbatim>\<open>TypeError\<close>.
\<close>

type_synonym table = "json \<rightharpoonup> json"

definition table_get :: "table \<Rightarrow> json \<Rightarrow> json \<Rightarrow> py_exn + json" where
  "table_get tbl title dflt =
     and_then (hash_key title) (\<lambda>k. Inr (case tbl k of None \<Rightarrow> dflt | Some v \<Rightarrow> v))"

definition table_set :: "table \<Rightarrow> json \<Rightarrow> json \<Rightarrow> py_exn + table" where
  "table_set tbl title v = and_then (hash_key title) (\<lambda>k. Inr (tbl(k \<mapsto> v)))"

text \<open>
  The body of the \<^verbatim>\<open>try\<close> of a \<^verbatim>\<open>create_task\<close> step: \<open>Inr\<close> of the result to append and
  the table after the assignment, or \<open>Inl\<close> of the exception raised, which leaves the
  table as it was; with the client's next state in both cases.
\<close>

definition try_create_task ::
  "'c client \<Rightarrow> json \<Rightarrow> pydict \<Rightarrow> json \<Rightarrow> 'c \<Rightarrow> table \<Rightarrow> (py_exn + json \<times> table) \<times> 'c" where
  "try_create_task cl project_id step action c tbl =
     (case dict_getitem step ''title'' of
        Inl e \<Rightarrow> (Inl e, c)
      | Inr title \<Rightarrow>
     (case dict_getitem step ''description'' of
        Inl e \<Rightarrow> (Inl e, c)
      | Inr description \<Rightarrow>
     (case client_create_task cl c project_id title description of
        (r, c') \<Rightarrow>
          (and_then r (\<lambda>resp.
           and_then (py_get resp ''id'' (JStr [])) (\<lambda>dflt.
           and_then (py_get resp ''issue_id'' dflt) (\<lambda>task_id.
           and_then (table_set tbl title task_id) (\<lambda>tbl'.
           Inr (JDict [(''action'', action), (''title'', title), (''status'', JStr ''success''),
                       (''task_id'', task_id), (''detail'', resp)],
                tbl'))))),
           c'))))"

text \<open>The body of the \<^verbatim>\<open>try\<close> of a \<^verbatim>\<open>start_workspace\<close> step.\<close>

definition try_start_workspace ::
  "'c client \<Rightarrow> pydict \<Rightarrow> json \<Rightarrow> json \<Rightarrow> 'c \<Rightarrow> (py_exn + json) \<times> 'c" where
  "try_start_workspace cl step action task_id c =
     (case dict_getitem step ''title'' of
        Inl e \<Rightarrow> (Inl e, c)
      | Inr title \<Rightarrow>
     (case dict_getitem step ''executor'' of
        Inl e \<Rightarrow> (Inl e, c)
      | Inr executor \<Rightarrow>
     (case client_start_workspace cl c task_id title executor
             (dict_get step ''repo'' (JStr [])) (dict_get step ''base_branch'' (JStr ''main'')) of
        (r, c') \<Rightarrow>
          (and_then r (\<lambda>resp.
           and_then (py_get resp ''workspace_id'' (JStr [])) (\<lambda>workspace_id.
           Inr (JDict [(''action'', action), (''title'', title), (''status'', JStr ''success''),
                       (''task_id'', task_id), (''workspace_id'', workspace_id),
                       (''executor'', executor), (''detail'', resp)]))),
           c'))))"

text \<open>
  The \<^verbatim>\<open>except Exception as e\<close> clause of both branches: it builds the error result, and
  reads \<^verbatim>\<open>step["title"]\<close> doing so.
\<close>

definition error_result :: "json \<Rightarrow> pydict \<Rightarrow> py_exn \<Rightarrow> py_exn + json" where
  "error_result action step e =
     and_then (dict_getitem step ''title'') (\<lambda>title.
     Inr (JDict [(''action'', action), (''title'', title), (''status'', JStr ''error''),
                 (''error'', JStr (exn_str e))]))"

text \<open>
  One iteration of the loop over \<^verbatim>\<open>plan["steps"]\<close>. The state is the client's state,
  \<^verbatim>\<open>title_to_task_id\<close> and \<^verbatim>\<open>results\<close>; \<open>Inl\<close> is an exception that leaves
  \<open>execute_plan\<close>. A step whose action is neither of the two is passed over.
\<close>

definition execute_step ::
  "'c client \<Rightarrow> json \<Rightarrow> json \<Rightarrow> 'c \<times> table \<times> json list \<Rightarrow> py_exn + 'c \<times> table \<times> json list" where
  "execute_step cl project_id step st =
     (case st of (c, tbl, results) \<Rightarrow>
     (case step of
        JDict d \<Rightarrow>
          and_then (dict_getitem d ''action'') (\<lambda>action.
          if action = JStr ''create_task'' then
            (case try_create_task cl project_id d action c tbl of
               (Inr (r, tbl'), c') \<Rightarrow> Inr (c', tbl', results @ [r])
             | (Inl e, c') \<Rightarrow>
                 and_then (error_result action d e) (\<lambda>r. Inr (c', tbl, results @ [r])))
          else if action = JStr ''start_workspace'' then
            and_then (dict_getitem d ''title'') (\<lambda>title.
            and_then (table_get tbl title (JStr [])) (\<lambda>task_id.
            (case try_start_workspace cl d action task_id c of
               (Inr r, c') \<Rightarrow> Inr (c', tbl, results @ [r])
             | (Inl e, c') \<Rightarrow>
                 and_then (error_result action d e) (\<lambda>r. Inr (c', tbl, results @ [r])))))
          else Inr st)
      | _ \<Rightarrow> and_then (py_getitem step ''action'') (\<lambda>action. Inr st)))"

fun execute_steps ::
  "'c client \<Rightarrow> json \<Rightarrow> json list \<Rightarrow> 'c \<times> table \<times> json list \<Rightarrow> py_exn + 'c \<times> table \<times> json list" where
  "execute_steps cl project_id [] st = Inr st"
| "execute_steps cl project_id (step # rest) st =
     and_then (execute_step cl project_id step st) (execute_steps cl project_id rest)"

text \<open>
  \<open>execute_plan plan cl project_id c\<close> runs the plan on the client \<open>cl\<close> in state \<open>c\<close>
  and returns the results with the client's final state.
\<close>

definition execute_plan :: "plan \<Rightarrow> 'c client \<Rightarrow> json \<Rightarrow> 'c \<Rightarrow> py_exn + json list \<times> 'c" where
  "execute_plan plan cl project_id c =
     and_then (execute_steps cl project_id (steps plan) (c, Map.empty, []))
       (\<lambda>st. Inr (snd (snd st), fst st))"

text \<open>
  A client that keeps a log of the calls made on it, on top of any client: what the
  mock of the tests records as \<^verbatim>\<open>call_args\<close>.
\<close>

datatype call =
    CreateTaskCall json json json
  | StartWorkspaceCall json json json json json

definition recording :: "'c client \<Rightarrow> (call list \<times> 'c) client" where
  "recording cl =
     \<lparr>client_create_task = (\<lambda>s project_id title description.
        case client_create_task cl (snd s) project_id title description of
          (r, c') \<Rightarrow> (r, (fst s @ [CreateTaskCall project_id title description], c'))),
      client_start_workspace = (\<lambda>s task_id title executor repo_id base_branch.
        case client_start_workspace cl (snd s) task_id title executor repo_id base_branch of
          (r, c') \<Rightarrow>
            (r, (fst s @ [StartWorkspaceCall task_id title executor repo_id base_branch], c')))\<rparr>"

section \<open>Reporter\<close>

record report_summary =
  total_steps :: int
  succeeded :: int
  failed :: int
  report_total_tasks :: int
  report_total_workspaces :: int

record report =
  project :: json
  project_id :: json
  executed_at :: string
  source :: json
  report_summary :: report_summary
  results :: "json list"

text \<open>
  \<open>build_execution_report now manifest plan rs pid\<close>: \<open>rs\<close> and \<open>pid\<close> are the
  \<^verbatim>\<open>results\<close> and the \<^verbatim>\<open>project_id\<close> of the source, and \<open>now\<close> is the text of
  \<^verbatim>\<open>datetime.now(timezone.utc).isoformat()\<close>, read from the clock. The two counts raise
  on a result that is not a dict or has no status.
\<close>

definition build_execution_report ::
  "string \<Rightarrow> pydict \<Rightarrow> plan \<Rightarrow> json list \<Rightarrow> json \<Rightarrow> py_exn + report" where
  "build_execution_report now manifest plan rs pid =
     and_then (count_where rs ''status'' ''success'') (\<lambda>n_succeeded.
     and_then (count_where rs ''status'' ''error'') (\<lambda>n_failed.
     Inr \<lparr>project = dict_get manifest ''project'' (JStr []),
          project_id = pid,
          executed_at = now,
          source = dict_get manifest ''source'' (JDict []),
          report_summary =
            \<lparr>total_steps = int (length rs), succeeded = n_succeeded, failed = n_failed,
             report_total_tasks = total_tasks (summary plan),
             report_total_workspaces = total_workspaces (summary plan)\<rparr>,
          results = rs\<rparr>))"

text \<open>
  The results \<^verbatim>\<open>main\<close> of \<^verbatim>\<open>entrypoint.py\<close> builds on a dry run, in place of calling
  \<open>execute_plan\<close>, and passes to \<open>build_execution_report\<close>.
\<close>

fun dry_run_results :: "json list \<Rightarrow> py_exn + json list" where
  "dry_run_results [] = Inr []"
| "dry_run_results (s # ss) =
     and_then (py_getitem s ''action'') (\<lambda>action.
     and_then (py_getitem s ''title'') (\<lambda>title.
     and_then (dry_run_results ss) (\<lambda>rs.
     Inr (JDict [(''action'', action), (''title'', title), (''status'', JStr ''skipped'')] # rs))))"

section \<open>Terms of the claims\<close>

subsection \<open>Planner\<close>

text \<open>
  The tasks of a manifest are what \<^verbatim>\<open>for task in manifest.get("tasks", [])\<close> yields, the
  subtasks of a task what \<^verbatim>\<open>for sub in task.get("subtasks", [])\<close> yields; both are empty
  where the source would raise. \<open>n_tasks\<close> and \<open>n_subtasks\<close> count them: the N and the
  sum of the subtask entries of the specification.
\<close>

definition manifest_tasks :: "pydict \<Rightarrow> json list" where
  "manifest_tasks manifest =
     (case py_iter (dict_get manifest ''tasks'' (JList [])) of Inr ts \<Rightarrow> ts | Inl e \<Rightarrow> [])"

definition task_subtasks :: "json \<Rightarrow> json list" where
  "task_subtasks task =
     (case and_then (py_get task ''subtasks'' (JList [])) py_iter of Inr ss \<Rightarrow> ss | Inl e \<Rightarrow> [])"

definition n_tasks :: "pydict \<Rightarrow> int" where
  "n_tasks manifest = int (length (manifest_tasks manifest))"

definition n_subtasks :: "pydict \<Rightarrow> int" where
  "n_subtasks manifest = (\<Sum>task\<leftarrow>manifest_tasks manifest. int (length (task_subtasks task)))"

text \<open>The action and the title of a step, a result or a task: \<^verbatim>\<open>x["action"]\<close>, \<^verbatim>\<open>x["title"]\<close>.\<close>

abbreviation action_of :: "json \<Rightarrow> py_exn + json" where
  "action_of s \<equiv> py_getitem s ''action''"

abbreviation title_of :: "json \<Rightarrow> py_exn + json" where
  "title_of s \<equiv> py_getitem s ''title''"

text \<open>
  \<open>lookup x k\<close> is the value \<open>x\<close> holds under the key \<open>k\<close>, if \<open>x\<close> is a dict and has the
  key. \<open>fallback_value x k other\<close> is the fallback of the specification: that value if
  there is one, and \<open>other\<close> if not. The defaults of a manifest are what
  \<^verbatim>\<open>manifest.get("defaults", {})\<close> returns.
\<close>

definition lookup :: "json \<Rightarrow> string \<Rightarrow> json option" where
  "lookup x k = (case x of JDict d \<Rightarrow> map_of d k | _ \<Rightarrow> None)"

definition fallback_value :: "json \<Rightarrow> string \<Rightarrow> json \<Rightarrow> json" where
  "fallback_value x k other = (case lookup x k of Some v \<Rightarrow> v | None \<Rightarrow> other)"

definition manifest_defaults :: "pydict \<Rightarrow> json" where
  "manifest_defaults manifest = dict_get manifest ''defaults'' (JDict [])"

definition default_of :: "pydict \<Rightarrow> string \<Rightarrow> json \<Rightarrow> json" where
  "default_of manifest k hard = fallback_value (manifest_defaults manifest) k hard"

text \<open>The \<^verbatim>\<open>start_workspace\<close> steps of a plan, in the plan's order.\<close>

definition workspace_steps :: "plan \<Rightarrow> json list" where
  "workspace_steps p = filter (\<lambda>s. action_of s = Inr (JStr ''start_workspace'')) (steps p)"

text \<open>
  \<open>task_block de dr db task blk\<close>: \<open>blk\<close> is a run of steps as one iteration of the loop
  over the tasks appends it for \<open>task\<close>, under the defaults \<open>de\<close>, \<open>dr\<close> and \<open>db\<close>.
\<close>

definition task_block :: "json \<Rightarrow> json \<Rightarrow> json \<Rightarrow> json \<Rightarrow> json list \<Rightarrow> bool" where
  "task_block de dr db task blk =
     (case blk of
        c # w # ss \<Rightarrow>
          lookup task ''title'' \<noteq> None \<and>
          action_of c = Inr (JStr ''create_task'') \<and> title_of c = title_of task \<and>
          py_getitem c ''parent_title'' = Inr JNull \<and> lookup c ''description'' \<noteq> None \<and>
          action_of w = Inr (JStr ''start_workspace'') \<and> title_of w = title_of task \<and>
          py_get task ''executor'' de = py_getitem w ''executor'' \<and>
          py_get task ''repo'' dr = py_getitem w ''repo'' \<and>
          py_get task ''base_branch'' db = py_getitem w ''base_branch'' \<and>
          map action_of ss = replicate (length (task_subtasks task)) (Inr (JStr ''create_task'')) \<and>
          map title_of ss = map subtask_title (task_subtasks task) \<and>
          map (\<lambda>s. py_getitem s ''parent_title'') ss =
            replicate (length (task_subtasks task)) (title_of task) \<and>
          list_all (\<lambda>s. lookup s ''description'' \<noteq> None) ss
      | _ \<Rightarrow> False)"

text \<open>
  A manifest of the shape the data model of the specification gives it: the defaults,
  where present, are a dict; the tasks, where present, are a list of dicts with a title;
  the subtasks of a task, where present, are a list of strings and dicts.
\<close>

definition subtask_shaped :: "json \<Rightarrow> bool" where
  "subtask_shaped sub = (case sub of JStr s \<Rightarrow> True | JDict d \<Rightarrow> True | _ \<Rightarrow> False)"

definition task_shaped :: "json \<Rightarrow> bool" where
  "task_shaped task =
     (lookup task ''title'' \<noteq> None \<and>
      (case fallback_value task ''subtasks'' (JList []) of
         JList subs \<Rightarrow> list_all subtask_shaped subs
       | _ \<Rightarrow> False))"

definition manifest_shaped :: "pydict \<Rightarrow> bool" where
  "manifest_shaped manifest =
     ((case manifest_defaults manifest of JDict d \<Rightarrow> True | _ \<Rightarrow> False) \<and>
      (case dict_get manifest ''tasks'' (JList []) of
         JList tasks \<Rightarrow> list_all task_shaped tasks
       | _ \<Rightarrow> False))"

text \<open>A task whose title and whose subtasks' titles are strings.\<close>

definition is_string :: "py_exn + json \<Rightarrow> bool" where
  "is_string x = (case x of Inr (JStr s) \<Rightarrow> True | _ \<Rightarrow> False)"

definition string_titled :: "json \<Rightarrow> bool" where
  "string_titled task =
     (is_string (title_of task) \<and>
      list_all (\<lambda>sub. is_string (subtask_title sub)) (task_subtasks task))"

subsection \<open>Validator\<close>

text \<open>
  The invariant of a manifest in the words of the specification: a non-empty project
  name, a non-empty task sequence, and a title, a non-empty string, in every task.
\<close>

definition nonempty_string :: "json option \<Rightarrow> bool" where
  "nonempty_string v = (case v of Some (JStr s) \<Rightarrow> s \<noteq> [] | _ \<Rightarrow> False)"

definition manifest_invariant :: "pydict \<Rightarrow> bool" where
  "manifest_invariant manifest =
     (nonempty_string (map_of manifest ''project'') \<and>
      (case map_of manifest ''tasks'' of
         Some (JList ts) \<Rightarrow> ts \<noteq> [] \<and> list_all (\<lambda>task. nonempty_string (lookup task ''title'')) ts
       | _ \<Rightarrow> False))"

text \<open>
  What the validator checks of a task: it is a dict with the key \<^verbatim>\<open>title\<close>, and its
  executor and priority, where present, are among the valid ones.
\<close>

definition value_in :: "pydict \<Rightarrow> string \<Rightarrow> string list \<Rightarrow> bool" where
  "value_in t k S =
     (case map_of t k of None \<Rightarrow> True | Some (JStr s) \<Rightarrow> s \<in> set S | Some _ \<Rightarrow> False)"

definition task_accepted :: "json \<Rightarrow> bool" where
  "task_accepted task =
     (case task of
        JDict t \<Rightarrow> dict_has t ''title'' \<and> value_in t ''executor'' VALID_EXECUTORS \<and>
                  value_in t ''priority'' VALID_PRIORITIES
      | _ \<Rightarrow> False)"

definition manifest_accepted :: "pydict \<Rightarrow> bool" where
  "manifest_accepted manifest =
     (dict_has manifest ''version'' \<and> dict_has manifest ''project'' \<and>
      (case map_of manifest ''tasks'' of
         Some (JList ts) \<Rightarrow> ts \<noteq> [] \<and> list_all task_accepted ts
       | _ \<Rightarrow> False))"

text \<open>
  A manifest whose tasks hold no list and no dict under \<^verbatim>\<open>executor\<close> or \<^verbatim>\<open>priority\<close>:
  the values the membership tests of the validator can hash.
\<close>

definition hashable :: "json option \<Rightarrow> bool" where
  "hashable v = (case v of Some (JList xs) \<Rightarrow> False | Some (JDict d) \<Rightarrow> False | _ \<Rightarrow> True)"

definition task_hashable :: "json \<Rightarrow> bool" where
  "task_hashable task =
     (hashable (lookup task ''executor'') \<and> hashable (lookup task ''priority''))"

definition manifest_hashable :: "pydict \<Rightarrow> bool" where
  "manifest_hashable manifest =
     (case map_of manifest ''tasks'' of
        Some (JList tasks) \<Rightarrow> list_all task_hashable tasks
      | _ \<Rightarrow> True)"

subsection \<open>Executor and reporter\<close>

text \<open>
  A step of the data model of the specification: a dict with a title that is a string,
  and either the action \<^verbatim>\<open>create_task\<close> and a description or the action
  \<^verbatim>\<open>start_workspace\<close> and an executor.
\<close>

definition plan_step :: "json \<Rightarrow> bool" where
  "plan_step s =
     (case lookup s ''title'' of
        Some (JStr t) \<Rightarrow>
          lookup s ''action'' = Some (JStr ''create_task'') \<and> lookup s ''description'' \<noteq> None \<or>
          lookup s ''action'' = Some (JStr ''start_workspace'') \<and> lookup s ''executor'' \<noteq> None
      | _ \<Rightarrow> False)"

text \<open>The kind and the title of a call made on the client.\<close>

fun call_action :: "call \<Rightarrow> json" where
  "call_action (CreateTaskCall pid title description) = JStr ''create_task''"
| "call_action (StartWorkspaceCall task_id title executor repo_id base_branch) = JStr ''start_workspace''"

fun call_title :: "call \<Rightarrow> json" where
  "call_title (CreateTaskCall pid title description) = title"
| "call_title (StartWorkspaceCall task_id title executor repo_id base_branch) = title"

text \<open>The results the two branches of \<open>execute_step\<close> append.\<close>

definition create_task_success :: "json \<Rightarrow> json \<Rightarrow> json \<Rightarrow> json" where
  "create_task_success title task_id resp =
     JDict [(''action'', JStr ''create_task''), (''title'', title), (''status'', JStr ''success''),
            (''task_id'', task_id), (''detail'', resp)]"

definition start_workspace_success :: "json \<Rightarrow> json \<Rightarrow> json \<Rightarrow> json \<Rightarrow> json \<Rightarrow> json" where
  "start_workspace_success title task_id workspace_id executor resp =
     JDict [(''action'', JStr ''start_workspace''), (''title'', title), (''status'', JStr ''success''),
            (''task_id'', task_id), (''workspace_id'', workspace_id), (''executor'', executor),
            (''detail'', resp)]"

definition step_error :: "string \<Rightarrow> json \<Rightarrow> py_exn \<Rightarrow> json" where
  "step_error action title e =
     JDict [(''action'', JStr action), (''title'', title), (''status'', JStr ''error''),
            (''error'', JStr (exn_str e))]"

text \<open>
  What the \<^verbatim>\<open>try\<close> of a \<^verbatim>\<open>create_task\<close> step reads from the answer \<open>r\<close> of the client: the
  response with its identifier, \<^verbatim>\<open>resp.get("issue_id", resp.get("id", ""))\<close>, or the
  exception.
\<close>

definition created_id :: "py_exn + json \<Rightarrow> py_exn + json \<times> json" where
  "created_id r =
     and_then r (\<lambda>resp.
     and_then (py_get resp ''id'' (JStr [])) (\<lambda>dflt.
     and_then (py_get resp ''issue_id'' dflt) (\<lambda>task_id. Inr (resp, task_id))))"

text \<open>A result whose status is \<^verbatim>\<open>success\<close> or \<^verbatim>\<open>error\<close>, as \<open>build_execution_report\<close> counts them.\<close>

definition success_or_error :: "json \<Rightarrow> bool" where
  "success_or_error r =
     (py_getitem r ''status'' = Inr (JStr ''success'') \<or> py_getitem r ''status'' = Inr (JStr ''error''))"

text \<open>
  \<open>created_under k r\<close>: the result \<open>r\<close> is the success of a \<^verbatim>\<open>create_task\<close> step whose
  title stands for the key \<open>k\<close> of the table.
\<close>

definition created_under :: "json \<Rightarrow> json \<Rightarrow> bool" where
  "created_under k r =
     (action_of r = Inr (JStr ''create_task'') \<and>
      py_getitem r ''status'' = Inr (JStr ''success'') \<and>
      and_then (title_of r) hash_key = Inr k)"

text \<open>
  \<open>last_created k rs\<close>: the identifier in the last result of \<open>rs\<close> that is the success of
  a creation under the key \<open>k\<close>, if there is one.
\<close>

definition last_created :: "json \<Rightarrow> json list \<Rightarrow> json option" where
  "last_created k rs =
     (case find (created_under k) (rev rs) of
        None \<Rightarrow> None
      | Some r \<Rightarrow> (case py_getitem r ''task_id'' of Inr i \<Rightarrow> Some i | Inl e \<Rightarrow> None))"

subsection \<open>Remote client\<close>

text \<open>
  What \<^verbatim>\<open>str.upper\<close> returns on a string of ASCII characters: each of the letters \<^verbatim>\<open>a\<close> to
  \<^verbatim>\<open>z\<close> is replaced by its capital, every other character is kept. \<open>ascii s\<close> says that
  \<open>s\<close> is such a string.
\<close>

definition ascii :: "string \<Rightarrow> bool" where
  "ascii s = list_all (\<lambda>c. of_char c < (128::nat)) s"

definition ascii_upper_char :: "char \<Rightarrow> char" where
  "ascii_upper_char c =
     (if CHR ''a'' \<le> c \<and> c \<le> CHR ''z'' then char_of (of_char c - (32::nat)) else c)"

definition ascii_upper :: "string \<Rightarrow> string" where
  "ascii_upper s = map ascii_upper_char s"

subsection \<open>Example inputs\<close>

text \<open>
  A manifest in the style of the tests: defaults without a branch, a task with two
  subtasks (one a bare title, one a declaration) that overrides the executor, and a task
  that overrides nothing; and the plan \<open>plan_execution\<close> returns for it.
\<close>

definition parent_manifest :: pydict where
  "parent_manifest =
     [(''version'', JStr ''1.0.0''), (''project'', JStr ''Test Project''),
      (''defaults'', JDict [(''executor'', JStr ''codex''), (''repo'', JStr ''repo-uuid-123'')]),
      (''tasks'', JList
         [JDict [(''title'', JStr ''Parent''), (''executor'', JStr ''claude-code''),
                 (''subtasks'', JList [JStr ''Sub A'', JDict [(''title'', JStr ''Sub B'')]])],
          JDict [(''title'', JStr ''Build the widget''), (''priority'', JStr ''High'')]])]"

definition parent_plan :: plan where
  "parent_plan =
     \<lparr>steps =
        [create_task_step (JStr ''Parent'') (JStr []) (JStr ''Medium'') (JList []) JNull,
         start_workspace_step (JStr ''Parent'') (JStr ''claude-code'') (JStr ''repo-uuid-123'')
           (JStr ''main''),
         create_task_step (JStr ''Sub A'') (JStr ''Subtask of: Parent'') (JStr ''Medium'') (JList [])
           (JStr ''Parent''),
         create_task_step (JStr ''Sub B'') (JStr ''Subtask of: Parent'') (JStr ''Medium'') (JList [])
           (JStr ''Parent''),
         create_task_step (JStr ''Build the widget'') (JStr []) (JStr ''High'') (JList []) JNull,
         start_workspace_step (JStr ''Build the widget'') (JStr ''codex'') (JStr ''repo-uuid-123'')
           (JStr ''main'')],
      summary = \<lparr>total_tasks = 2, total_subtasks = 2, total_workspaces = 2\<rparr>\<rparr>"

text \<open>The two steps of the task \<^verbatim>\<open>Build the widget\<close> of \<open>parent_plan\<close>, as dicts.\<close>

definition widget_create :: pydict where
  "widget_create =
     [(''action'', JStr ''create_task''), (''title'', JStr ''Build the widget''),
      (''description'', JStr []), (''priority'', JStr ''High''), (''tags'', JList []),
      (''parent_title'', JNull)]"

definition widget_start :: pydict where
  "widget_start =
     [(''action'', JStr ''start_workspace''), (''title'', JStr ''Build the widget''),
      (''executor'', JStr ''codex''), (''repo'', JStr ''repo-uuid-123''),
      (''base_branch'', JStr ''main'')]"

text \<open>A manifest with two tasks of the same title, and its plan.\<close>

definition twin_manifest :: pydict where
  "twin_manifest =
     [(''version'', JStr ''1.0.0''), (''project'', JStr ''Test Project''),
      (''tasks'', JList [JDict [(''title'', JStr ''Fix login'')], JDict [(''title'', JStr ''Fix login'')]])]"

definition twin_plan :: plan where
  "twin_plan =
     \<lparr>steps =
        [create_task_step (JStr ''Fix login'') (JStr []) (JStr ''Medium'') (JList []) JNull,
         start_workspace_step (JStr ''Fix login'') (JStr ''claude-code'') (JStr []) (JStr ''main''),
         create_task_step (JStr ''Fix login'') (JStr []) (JStr ''Medium'') (JList []) JNull,
         start_workspace_step (JStr ''Fix login'') (JStr ''claude-code'') (JStr []) (JStr ''main'')],
      summary = \<lparr>total_tasks = 2, total_subtasks = 0, total_workspaces = 2\<rparr>\<rparr>"

text \<open>
  A manifest whose project name and only title are the empty string, and one whose only
  task has a list as its executor.
\<close>

definition empty_names_manifest :: pydict where
  "empty_names_manifest =
     [(''version'', JStr ''1.0.0''), (''project'', JStr []),
      (''tasks'', JList [JDict [(''title'', JStr [])]])]"

definition list_executor_manifest :: pydict where
  "list_executor_manifest =
     [(''version'', JStr ''1.0.0''), (''project'', JStr ''Test Project''),
      (''tasks'', JList [JDict [(''title'', JStr ''Build the widget''),
                                (''executor'', JList [JStr ''claude-code''])]])]"

text \<open>
  The mock of the tests, whose calls return \<^verbatim>\<open>{"issue_id": "task-001"}\<close> and
  \<^verbatim>\<open>{"workspace_id": "ws-001"}\<close>; the mock whose \<^verbatim>\<open>create_task\<close> raises
  \<^verbatim>\<open>RuntimeError("MCP error")\<close>; and a client whose \<^verbatim>\<open>create_task\<close> works once and
  raises from then on, its state the number of calls of \<^verbatim>\<open>create_task\<close> so far.
\<close>

definition mock_client :: "unit client" where
  "mock_client =
     \<lparr>client_create_task = (\<lambda>c p t d. (Inr (JDict [(''issue_id'', JStr ''task-001'')]), c)),
      client_start_workspace = (\<lambda>c i t e r b. (Inr (JDict [(''workspace_id'', JStr ''ws-001'')]), c))\<rparr>"

definition failing_client :: "unit client" where
  "failing_client =
     \<lparr>client_create_task = (\<lambda>c p t d. (Inl (RuntimeError ''MCP error''), c)),
      client_start_workspace = (\<lambda>c i t e r b. (Inr (JDict [(''workspace_id'', JStr ''ws-001'')]), c))\<rparr>"

definition create_once_client :: "nat client" where
  "create_once_client =
     \<lparr>client_create_task = (\<lambda>n p t d.
        (if n = 0 then Inr (JDict [(''issue_id'', JStr ''task-001'')])
         else Inl (RuntimeError ''MCP error''), Suc n)),
      client_start_workspace = (\<lambda>n i t e r b. (Inr (JDict [(''workspace_id'', JStr ''ws-001'')]), n))\<rparr>"

text \<open>
  The results of the test \<^verbatim>\<open>test_counts_successes_and_errors\<close>, and the results a dry run
  of \<open>parent_plan\<close> builds.
\<close>

definition mixed_results :: "json list" where
  "mixed_results =
     [JDict [(''status'', JStr ''success''), (''action'', JStr ''create_task''), (''title'', JStr ''a'')],
      JDict [(''status'', JStr ''error''), (''action'', JStr ''start_workspace''), (''title'', JStr ''a'')]]"

definition skipped_results :: "json list" where
  "skipped_results =
     map (\<lambda>s. JDict [(''action'', JStr (fst s)), (''title'', JStr (snd s)), (''status'', JStr ''skipped'')])
       [(''create_task'', ''Parent''), (''start_workspace'', ''Parent''), (''create_task'', ''Sub A''),
        (''create_task'', ''Sub B''), (''create_task'', ''Build the widget''),
        (''start_workspace'', ''Build the widget'')]"

text \<open>A transport that answers every call with the name of the tool and the arguments it got.\<close>

definition echo_call_tool :: "unit call_tool" where
  "echo_call_tool self name args = (Inr (JDict [(''tool'', JStr name), (''arguments'', args)]), self)"

section \<open>Properties\<close>

subsection \<open>Sequencing and lists\<close>

lemma and_then_simps [simp]:
  "and_then (Inl e) f = Inl e"
  "and_then (Inr v) f = f v"
  by (simp_all add: and_then_def)

lemma and_then_Inr: "and_then m f = Inr y \<longleftrightarrow> (\<exists>v. m = Inr v \<and> f v = Inr y)"
  by (cases m) auto

lemma py_len_iter: "py_iter v = Inr xs \<Longrightarrow> py_len v = Inr (int (length xs))"
  by (cases v) auto

lemma getitem_lookup: "py_getitem s k = Inr v \<longleftrightarrow> lookup s k = Some v"
  by (cases s) (auto simp: lookup_def dict_getitem_def split: option.splits)

lemma list_all2_map_eq:
  "list_all2 P xs ys \<Longrightarrow> (\<And>x y. P x y \<Longrightarrow> f y = g x) \<Longrightarrow> map f ys = map g xs"
  by (induction rule: list_all2_induct) auto

lemma list_all2_list_all:
  "list_all2 P xs ys \<Longrightarrow> (\<And>x y. P x y \<Longrightarrow> Q y) \<Longrightarrow> list_all Q ys"
  by (induction rule: list_all2_induct) auto

lemma list_all2_list_all_left:
  "list_all2 P xs ys \<Longrightarrow> list_all R xs \<Longrightarrow> (\<And>x y. P x y \<Longrightarrow> R x \<Longrightarrow> Q y) \<Longrightarrow> list_all Q ys"
  by (induction rule: list_all2_induct) auto

lemma list_all_concat: "list_all P (concat xss) = list_all (list_all P) xss"
  by (induction xss) auto

lemma filter_concat: "filter P (concat xss) = concat (map (filter P) xss)"
  by (induction xss) auto

lemma filter_replicate_other:
  "map f xs = replicate n a \<Longrightarrow> a \<noteq> b \<Longrightarrow> filter (\<lambda>x. f x = b) xs = []"
proof -
  assume eq: "map f xs = replicate n a" and ne: "a \<noteq> b"
  have "f x = a" if "x \<in> set xs" for x
  proof -
    from that have "f x \<in> set (map f xs)" by simp
    then show ?thesis unfolding eq by simp
  qed
  with ne show ?thesis by (auto simp: filter_empty_conv)
qed

lemma length_filter_disjoint:
  "(\<And>x. \<not> (P x \<and> Q x)) \<Longrightarrow>
   length (filter P xs) + length (filter Q xs) = length (filter (\<lambda>x. P x \<or> Q x) xs)"
  by (induction xs) auto

lemma length_filter_eq_iff: "length (filter P xs) = length xs \<longleftrightarrow> list_all P xs"
  by (induction xs) (auto simp: le_imp_less_Suc [OF length_filter_le] less_imp_neq)

subsection \<open>Validator\<close>

text \<open>
  Claim C5 says that \<open>validate_manifest\<close> returns a list of messages for every dict
  manifest, whatever the types of its values, and never raises. The code does not: on a
  manifest whose task has a list as its executor, the membership test hashes the list and
  \<open>validate_manifest\<close> raises \<^verbatim>\<open>TypeError\<close>, in whatever order the required keys are
  visited. Its sibling checks (\<^verbatim>\<open>isinstance(tasks, list)\<close>, \<^verbatim>\<open>isinstance(task, dict)\<close>) turn
  a value of the wrong type into a message; this one is missing.
\<close>

theorem validate_manifest_raises_on_list_executor:
  "validate_manifest key_order list_executor_manifest =
     Inl (TypeError (''unhashable type: '' @ quoted ''list''))"
  by (simp add: validate_manifest_def list_executor_manifest_def validate_task_def not_in_set_def
        in_str_set_def dict_has_def)

lemma not_in_set_returns:
  "(\<exists>r. not_in_set t k S = Inr r) \<longleftrightarrow> hashable (map_of t k)"
proof (cases "map_of t k")
  case None
  then show ?thesis by (simp add: not_in_set_def hashable_def)
next
  case (Some v)
  then show ?thesis
    by (cases v) (simp_all add: not_in_set_def hashable_def in_str_set_def)
qed

lemma validate_task_returns:
  "(\<exists>es. validate_task i task errors = Inr es) \<longleftrightarrow> task_hashable task"
proof (cases task)
  case (JDict t)
  show ?thesis
  proof (cases "not_in_set t ''executor'' VALID_EXECUTORS")
    case (Inl e)
    with not_in_set_returns [of t "''executor''" VALID_EXECUTORS] show ?thesis
      by (simp add: validate_task_def JDict Let_def task_hashable_def lookup_def)
  next
    case be: (Inr be)
    show ?thesis
    proof (cases "not_in_set t ''priority'' VALID_PRIORITIES")
      case (Inl e)
      with not_in_set_returns [of t "''priority''" VALID_PRIORITIES] show ?thesis
        by (simp add: validate_task_def JDict Let_def task_hashable_def lookup_def be)
    next
      case (Inr bp)
      with be not_in_set_returns [of t "''executor''" VALID_EXECUTORS]
        not_in_set_returns [of t "''priority''" VALID_PRIORITIES]
      show ?thesis
        by (simp add: validate_task_def JDict Let_def task_hashable_def lookup_def)
    qed
  qed
qed (simp_all add: validate_task_def task_hashable_def lookup_def hashable_def)

lemma validate_tasks_returns:
  "(\<exists>es. validate_tasks i tasks errors = Inr es) \<longleftrightarrow> list_all task_hashable tasks"
proof (induction tasks arbitrary: i errors)
  case Nil
  then show ?case by simp
next
  case (Cons task tasks)
  show ?case
  proof (cases "validate_task i task errors")
    case (Inl e)
    with validate_task_returns [of i task errors] show ?thesis by simp
  next
    case (Inr e1)
    with validate_task_returns [of i task errors] Cons.IH [of "Suc i" e1] show ?thesis by simp
  qed
qed

text \<open>
  \<open>validate_manifest\<close> returns a list of messages exactly on the manifests whose tasks
  hold no list and no dict under \<^verbatim>\<open>executor\<close> or \<^verbatim>\<open>priority\<close>; on the others it raises.
\<close>

theorem validate_manifest_returns_iff:
  "(\<exists>errors. validate_manifest key_order manifest = Inr errors) \<longleftrightarrow> manifest_hashable manifest"
proof (cases "map_of manifest ''tasks''")
  case None
  then show ?thesis by (simp add: validate_manifest_def manifest_hashable_def)
next
  case (Some tasks)
  then show ?thesis
    by (cases tasks)
       (simp_all add: validate_manifest_def manifest_hashable_def Let_def validate_tasks_returns)
qed

text \<open>
  Claim C6 as stated fails: the manifest whose project name and only title are the empty
  string gets no message, and does not meet the invariant.
\<close>

theorem validate_manifest_accepts_empty_names:
  "validate_manifest REQUIRED_MANIFEST_KEYS empty_names_manifest = Inr [] \<and>
   \<not> manifest_invariant empty_names_manifest"
  by (simp add: validate_manifest_def empty_names_manifest_def validate_task_def not_in_set_def
        in_str_set_def dict_has_def REQUIRED_MANIFEST_KEYS_def manifest_invariant_def
        nonempty_string_def)

lemma not_in_set_Inr:
  "not_in_set t k S = Inr None \<longleftrightarrow> value_in t k S"
  by (auto simp: not_in_set_def value_in_def in_str_set_def and_then_Inr
           split: option.splits json.splits sum.splits)

lemma validate_task_Inr:
  assumes "validate_task i task errors = Inr es"
  shows "\<exists>new. es = errors @ new \<and> (new = [] \<longleftrightarrow> task_accepted task)"
proof (cases task)
  case (JDict t)
  from assms obtain be bp where
    be: "not_in_set t ''executor'' VALID_EXECUTORS = Inr be" and
    bp: "not_in_set t ''priority'' VALID_PRIORITIES = Inr bp"
    by (auto simp: validate_task_def JDict Let_def and_then_Inr)
  have e: "be = None \<longleftrightarrow> value_in t ''executor'' VALID_EXECUTORS"
    using be not_in_set_Inr [of t "''executor''" VALID_EXECUTORS] by auto
  have p: "bp = None \<longleftrightarrow> value_in t ''priority'' VALID_PRIORITIES"
    using bp not_in_set_Inr [of t "''priority''" VALID_PRIORITIES] by auto
  show ?thesis
    using assms e p
    by (cases be; cases bp) (auto simp: validate_task_def JDict Let_def be bp task_accepted_def)
qed (use assms in \<open>auto simp: validate_task_def task_accepted_def\<close>)

lemma validate_tasks_Inr:
  assumes "validate_tasks i tasks errors = Inr es"
  shows "\<exists>new. es = errors @ new \<and> (new = [] \<longleftrightarrow> list_all task_accepted tasks)"
  using assms
proof (induction tasks arbitrary: i errors)
  case Nil
  then show ?case by simp
next
  case (Cons task tasks)
  from Cons.prems obtain e1 where
    one: "validate_task i task errors = Inr e1" and rest: "validate_tasks (Suc i) tasks e1 = Inr es"
    by (auto simp: and_then_Inr)
  from validate_task_Inr [OF one] obtain n1 where
    n1: "e1 = errors @ n1" "n1 = [] \<longleftrightarrow> task_accepted task" by blast
  from Cons.IH [OF rest] obtain n2 where
    n2: "es = e1 @ n2" "n2 = [] \<longleftrightarrow> list_all task_accepted tasks" by blast
  show ?case
    by (rule exI [of _ "n1 @ n2"]) (use n1 n2 in simp)
qed

lemma validate_task_accepted:
  "task_accepted task \<Longrightarrow> validate_task i task errors = Inr errors"
  by (cases task)
     (auto simp: task_accepted_def validate_task_def Let_def not_in_set_Inr [symmetric])

lemma validate_tasks_accepted:
  "list_all task_accepted tasks \<Longrightarrow> validate_tasks i tasks errors = Inr errors"
  by (induction tasks arbitrary: i) (auto simp: validate_task_accepted)

text \<open>
  Claim C6, amended. \<open>validate_manifest\<close> returns the empty list exactly on the
  manifests that have the keys \<^verbatim>\<open>version\<close>, \<^verbatim>\<open>project\<close> and \<^verbatim>\<open>tasks\<close>, whose tasks are a
  non-empty list, and whose every task is a dict with the key \<^verbatim>\<open>title\<close> and with an
  executor and a priority that, where present, are among the valid ones. The values under
  \<^verbatim>\<open>project\<close> and \<^verbatim>\<open>title\<close> are not looked at: they may be empty, or no strings at all. The
  hypothesis says that \<open>key_order\<close> lists the required keys, in any order.
\<close>

theorem validate_manifest_empty_iff:
  assumes "set key_order = set REQUIRED_MANIFEST_KEYS"
  shows "validate_manifest key_order manifest = Inr [] \<longleftrightarrow> manifest_accepted manifest"
proof -
  have missing: "filter (\<lambda>key. \<not> dict_has manifest key) key_order = [] \<longleftrightarrow>
        dict_has manifest ''version'' \<and> dict_has manifest ''tasks'' \<and> dict_has manifest ''project''"
    using assms by (auto simp: filter_empty_conv REQUIRED_MANIFEST_KEYS_def)
  show ?thesis
  proof
    assume v: "validate_manifest key_order manifest = Inr []"
    show "manifest_accepted manifest"
    proof (cases "map_of manifest ''tasks''")
      case None
      with v missing show ?thesis
        by (auto simp: validate_manifest_def Let_def dict_has_def)
    next
      case (Some tasks)
      show ?thesis
      proof (cases tasks)
        case (JList ts)
        with v Some have ne: "ts \<noteq> []" and
          run: "validate_tasks 0 ts (map (\<lambda>key. ''Missing required key: '' @ quoted key)
                  (filter (\<lambda>key. \<not> dict_has manifest key) key_order)) = Inr []"
          by (auto simp: validate_manifest_def Let_def split: if_splits)
        from validate_tasks_Inr [OF run] have
          "filter (\<lambda>key. \<not> dict_has manifest key) key_order = []" "list_all task_accepted ts"
          by auto
        with missing ne Some JList show ?thesis
          by (simp add: manifest_accepted_def)
      qed (use v Some in \<open>auto simp: validate_manifest_def Let_def\<close>)
    qed
  next
    assume a: "manifest_accepted manifest"
    then obtain ts where ts: "map_of manifest ''tasks'' = Some (JList ts)" "ts \<noteq> []"
      "list_all task_accepted ts"
      by (auto simp: manifest_accepted_def split: option.splits json.splits)
    from a ts have "filter (\<lambda>key. \<not> dict_has manifest key) key_order = []"
      using missing by (simp add: manifest_accepted_def dict_has_def)
    with ts show "validate_manifest key_order manifest = Inr []"
      by (simp add: validate_manifest_def validate_tasks_accepted)
  qed
qed

text \<open>The example manifest is accepted, in the order the keys are written in the source.\<close>

theorem validate_manifest_empty_iff_witness:
  "set REQUIRED_MANIFEST_KEYS = set REQUIRED_MANIFEST_KEYS \<and>
   validate_manifest REQUIRED_MANIFEST_KEYS parent_manifest = Inr [] \<and>
   manifest_accepted parent_manifest"
proof -
  have "manifest_accepted parent_manifest"
    by (simp add: manifest_accepted_def parent_manifest_def dict_has_def task_accepted_def
          value_in_def VALID_EXECUTORS_def VALID_PRIORITIES_def)
  then show ?thesis
    using validate_manifest_empty_iff [of REQUIRED_MANIFEST_KEYS parent_manifest] by simp
qed

subsection \<open>Planner\<close>

lemma plan_subtask_Inr:
  assumes "plan_subtask task sub st = Inr st'"
  shows "\<exists>s. st' = (fst st @ [s], snd st + 1) \<and> action_of s = Inr (JStr ''create_task'') \<and>
             title_of s = subtask_title sub \<and> py_getitem s ''parent_title'' = title_of task \<and>
             lookup s ''description'' \<noteq> None"
  using assms
  by (auto simp: plan_subtask_def and_then_Inr create_task_step_def dict_getitem_def lookup_def)

lemma plan_subtasks_Inr:
  assumes "plan_subtasks task subs st = Inr st'"
  shows "\<exists>ss. st' = (fst st @ ss, snd st + int (length subs)) \<and>
              map action_of ss = replicate (length subs) (Inr (JStr ''create_task'')) \<and>
              map title_of ss = map subtask_title subs \<and>
              map (\<lambda>s. py_getitem s ''parent_title'') ss = replicate (length subs) (title_of task) \<and>
              list_all (\<lambda>s. lookup s ''description'' \<noteq> None) ss"
  using assms
proof (induction subs arbitrary: st)
  case Nil
  then show ?case by simp
next
  case (Cons sub subs)
  from Cons.prems obtain st1 where
    one: "plan_subtask task sub st = Inr st1" and rest: "plan_subtasks task subs st1 = Inr st'"
    by (auto simp: and_then_Inr)
  from plan_subtask_Inr [OF one] obtain s where
    s: "st1 = (fst st @ [s], snd st + 1)" "action_of s = Inr (JStr ''create_task'')"
       "title_of s = subtask_title sub" "py_getitem s ''parent_title'' = title_of task"
       "lookup s ''description'' \<noteq> None"
    by blast
  from Cons.IH [OF rest] obtain ss where
    ss: "st' = (fst st1 @ ss, snd st1 + int (length subs))"
        "map action_of ss = replicate (length subs) (Inr (JStr ''create_task''))"
        "map title_of ss = map subtask_title subs"
        "map (\<lambda>s. py_getitem s ''parent_title'') ss = replicate (length subs) (title_of task)"
        "list_all (\<lambda>s. lookup s ''description'' \<noteq> None) ss"
    by blast
  show ?case
    by (rule exI [of _ "s # ss"]) (use s ss in simp)
qed

lemma plan_task_Inr:
  assumes "plan_task de dr db task st = Inr st'"
  shows "\<exists>blk. st' = (fst st @ blk, snd st + int (length (task_subtasks task))) \<and>
               task_block de dr db task blk"
proof -
  from assms obtain t where t: "task = JDict t"
    by (cases task) (auto simp: plan_task_def)
  from assms obtain title subs where
    title: "dict_getitem t ''title'' = Inr title" and
    subs: "py_iter (dict_get t ''subtasks'' (JList [])) = Inr subs" and
    run: "plan_subtasks task subs
            (fst st @ [create_task_step title (dict_get t ''description'' (JStr []))
                         (dict_get t ''priority'' (JStr ''Medium'')) (dict_get t ''tags'' (JList [])) JNull,
                       start_workspace_step title (dict_get t ''executor'' de) (dict_get t ''repo'' dr)
                         (dict_get t ''base_branch'' db)],
             snd st) = Inr st'"
    unfolding plan_task_def t by (auto simp: and_then_Inr)
  have ts: "task_subtasks (JDict t) = subs"
    by (simp add: task_subtasks_def subs)
  from plan_subtasks_Inr [OF run] obtain ss where
    ss: "st' = ((fst st @ [create_task_step title (dict_get t ''description'' (JStr []))
                         (dict_get t ''priority'' (JStr ''Medium'')) (dict_get t ''tags'' (JList [])) JNull,
                       start_workspace_step title (dict_get t ''executor'' de) (dict_get t ''repo'' dr)
                         (dict_get t ''base_branch'' db)]) @ ss, snd st + int (length subs))"
        "map action_of ss = replicate (length subs) (Inr (JStr ''create_task''))"
        "map title_of ss = map subtask_title subs"
        "map (\<lambda>s. py_getitem s ''parent_title'') ss = replicate (length subs) (title_of task)"
        "list_all (\<lambda>s. lookup s ''description'' \<noteq> None) ss"
    by auto
  show ?thesis
    apply (rule exI [of _ "create_task_step title (dict_get t ''description'' (JStr []))
                         (dict_get t ''priority'' (JStr ''Medium'')) (dict_get t ''tags'' (JList [])) JNull #
                       start_workspace_step title (dict_get t ''executor'' de) (dict_get t ''repo'' dr)
                         (dict_get t ''base_branch'' db) # ss"])
    using ss title
    by (simp add: ts task_block_def t create_task_step_def
          start_workspace_step_def dict_getitem_def lookup_def split: option.splits)
qed

lemma plan_tasks_Inr:
  assumes "plan_tasks de dr db tasks st = Inr st'"
  shows "\<exists>blocks. st' = (fst st @ concat blocks,
                          snd st + (\<Sum>t\<leftarrow>tasks. int (length (task_subtasks t)))) \<and>
                  list_all2 (task_block de dr db) tasks blocks"
  using assms
proof (induction tasks arbitrary: st)
  case Nil
  then show ?case by simp
next
  case (Cons task tasks)
  from Cons.prems obtain st1 where
    one: "plan_task de dr db task st = Inr st1" and rest: "plan_tasks de dr db tasks st1 = Inr st'"
    by (auto simp: and_then_Inr)
  from plan_task_Inr [OF one] obtain blk where
    blk: "st1 = (fst st @ blk, snd st + int (length (task_subtasks task)))" "task_block de dr db task blk"
    by blast
  from Cons.IH [OF rest] obtain blocks where
    blocks: "st' = (fst st1 @ concat blocks, snd st1 + (\<Sum>t\<leftarrow>tasks. int (length (task_subtasks t))))"
            "list_all2 (task_block de dr db) tasks blocks"
    by blast
  show ?case
    by (rule exI [of _ "blk # blocks"]) (use blk blocks in simp)
qed

lemma plan_execution_blocks:
  assumes "plan_execution m = Inr p"
  shows "\<exists>blocks. steps p = concat blocks \<and>
           list_all2 (task_block (default_of m ''executor'' (JStr ''claude-code''))
                        (default_of m ''repo'' (JStr [])) (default_of m ''base_branch'' (JStr ''main'')))
             (manifest_tasks m) blocks \<and>
           total_tasks (summary p) = n_tasks m \<and>
           total_subtasks (summary p) = n_subtasks m \<and>
           count_where (steps p) ''action'' ''start_workspace'' = Inr (total_workspaces (summary p))"
proof -
  from assms obtain d where d: "dict_get m ''defaults'' (JDict []) = JDict d"
    by (cases "dict_get m ''defaults'' (JDict [])") (auto simp: plan_execution_def Let_def)
  from assms obtain tasks st n w where
    it: "py_iter (dict_get m ''tasks'' (JList [])) = Inr tasks" and
    run: "plan_tasks (dict_get d ''executor'' (JStr ''claude-code'')) (dict_get d ''repo'' (JStr []))
            (dict_get d ''base_branch'' (JStr ''main'')) tasks ([], 0) = Inr st" and
    len: "py_len (dict_get m ''tasks'' (JList [])) = Inr n" and
    cnt: "count_where (fst st) ''action'' ''start_workspace'' = Inr w" and
    p: "p = \<lparr>steps = fst st, summary = \<lparr>total_tasks = n, total_subtasks = snd st, total_workspaces = w\<rparr>\<rparr>"
    unfolding plan_execution_def Let_def d by (auto simp: and_then_Inr)
  have mt: "manifest_tasks m = tasks"
    by (simp add: manifest_tasks_def it)
  have n: "n = int (length tasks)"
    using py_len_iter [OF it] len by simp
  have df: "default_of m k hard = dict_get d k hard" for k hard
    unfolding default_of_def manifest_defaults_def d fallback_value_def by (simp add: lookup_def dict_get_def)
  from plan_tasks_Inr [OF run] obtain blocks where
    blocks: "st = (concat blocks, (\<Sum>t\<leftarrow>tasks. int (length (task_subtasks t))))"
      "list_all2 (task_block (dict_get d ''executor'' (JStr ''claude-code'')) (dict_get d ''repo'' (JStr []))
            (dict_get d ''base_branch'' (JStr ''main''))) tasks blocks"
    by auto
  show ?thesis
    by (rule exI [of _ blocks]) (use blocks cnt in \<open>simp add: p mt n df n_tasks_def n_subtasks_def\<close>)
qed

lemma block_actions:
  "task_block de dr db task blk \<Longrightarrow>
   map action_of blk =
     Inr (JStr ''create_task'') # Inr (JStr ''start_workspace'') #
     replicate (length (task_subtasks task)) (Inr (JStr ''create_task''))"
  by (auto simp: task_block_def split: list.splits)

lemma block_titles:
  "task_block de dr db task blk \<Longrightarrow>
   map title_of blk = title_of task # title_of task # map subtask_title (task_subtasks task)"
  by (auto simp: task_block_def split: list.splits)

lemma steps_actions:
  assumes "plan_execution m = Inr p"
  shows "map action_of (steps p) =
     concat (map (\<lambda>task. Inr (JStr ''create_task'') # Inr (JStr ''start_workspace'') #
                   replicate (length (task_subtasks task)) (Inr (JStr ''create_task'')))
               (manifest_tasks m))"
proof -
  from plan_execution_blocks [OF assms] obtain blocks where
    b: "steps p = concat blocks"
       "list_all2 (task_block (default_of m ''executor'' (JStr ''claude-code''))
                        (default_of m ''repo'' (JStr [])) (default_of m ''base_branch'' (JStr ''main'')))
             (manifest_tasks m) blocks"
    by blast
  have "map (map action_of) blocks =
        map (\<lambda>task. Inr (JStr ''create_task'') # Inr (JStr ''start_workspace'') #
                   replicate (length (task_subtasks task)) (Inr (JStr ''create_task'')))
          (manifest_tasks m)"
    by (rule list_all2_map_eq [OF b(2)]) (rule block_actions)
  then show ?thesis
    by (simp add: b(1) map_concat)
qed

lemma steps_titles:
  assumes "plan_execution m = Inr p"
  shows "map title_of (steps p) =
     concat (map (\<lambda>task. title_of task # title_of task # map subtask_title (task_subtasks task))
               (manifest_tasks m))"
proof -
  from plan_execution_blocks [OF assms] obtain blocks where
    b: "steps p = concat blocks"
       "list_all2 (task_block (default_of m ''executor'' (JStr ''claude-code''))
                        (default_of m ''repo'' (JStr [])) (default_of m ''base_branch'' (JStr ''main'')))
             (manifest_tasks m) blocks"
    by blast
  have "map (map title_of) blocks =
        map (\<lambda>task. title_of task # title_of task # map subtask_title (task_subtasks task))
          (manifest_tasks m)"
    by (rule list_all2_map_eq [OF b(2)]) (rule block_titles)
  then show ?thesis
    by (simp add: b(1) map_concat)
qed

lemma count_where_actions:
  "map (\<lambda>x. py_getitem x k) xs = map Inr ys \<Longrightarrow>
   count_where xs k v = Inr (int (length (filter (\<lambda>y. y = JStr v) ys)))"
  by (induction xs arbitrary: ys) auto

lemma count_where_total:
  "list_all (\<lambda>r. lookup r k \<noteq> None) rs \<Longrightarrow> \<exists>n. count_where rs k v = Inr n"
proof (induction rs)
  case Nil
  then show ?case by simp
next
  case (Cons r rs)
  from Cons.prems obtain x where "py_getitem r k = Inr x"
    by (cases r) (auto simp: lookup_def dict_getitem_def)
  with Cons show ?case by auto
qed

lemma plan_subtasks_total:
  assumes "list_all subtask_shaped subs" and "task = JDict t" and "map_of t ''title'' = Some title"
  shows "\<exists>st'. plan_subtasks task subs st = Inr st'"
  using assms(1)
proof (induction subs arbitrary: st)
  case Nil
  then show ?case by simp
next
  case (Cons sub subs)
  from Cons.prems have "\<exists>st1. plan_subtask task sub st = Inr st1"
    by (cases sub)
       (simp_all add: plan_subtask_def subtask_shaped_def subtask_title_def assms(2,3)
          dict_getitem_def)
  with Cons show ?case by auto
qed

lemma plan_task_total:
  assumes "task_shaped task"
  shows "\<exists>st'. plan_task de dr db task st = Inr st'"
proof -
  from assms obtain t title where t: "task = JDict t" and title: "map_of t ''title'' = Some title"
    by (cases task) (auto simp: task_shaped_def lookup_def)
  from assms obtain subs where subs: "dict_get t ''subtasks'' (JList []) = JList subs"
    and shaped: "list_all subtask_shaped subs"
    by (cases "dict_get t ''subtasks'' (JList [])")
       (auto simp: task_shaped_def t fallback_value_def lookup_def dict_get_def)
  show ?thesis
    using plan_subtasks_total [OF shaped t title]
    by (simp add: plan_task_def t title subs dict_getitem_def)
qed

lemma plan_tasks_total:
  "list_all task_shaped tasks \<Longrightarrow> \<exists>st'. plan_tasks de dr db tasks st = Inr st'"
proof (induction tasks arbitrary: st)
  case Nil
  then show ?case by simp
next
  case (Cons task tasks)
  from Cons.prems obtain st1 where "plan_task de dr db task st = Inr st1"
    using plan_task_total [of task de dr db st] by auto
  with Cons show ?case by auto
qed

lemma block_has_actions:
  assumes "task_block de dr db task blk"
  shows "list_all (\<lambda>s. lookup s ''action'' \<noteq> None) blk"
proof -
  from assms obtain c w ss where blk: "blk = c # w # ss"
    by (auto simp: task_block_def split: list.splits)
  have "lookup s ''action'' \<noteq> None" if "s \<in> set ss" for s
  proof -
    from that have "action_of s \<in> set (map action_of ss)" by simp
    also have "map action_of ss = replicate (length (task_subtasks task)) (Inr (JStr ''create_task''))"
      using assms by (simp add: task_block_def blk)
    finally show ?thesis by (auto simp: getitem_lookup)
  qed
  then show ?thesis
    using assms by (auto simp: task_block_def blk getitem_lookup list_all_iff)
qed

text \<open>\<open>plan_execution\<close> returns a plan for every manifest of the shape of the data model.\<close>

lemma plan_execution_total:
  assumes "manifest_shaped manifest"
  shows "\<exists>plan. plan_execution manifest = Inr plan"
proof -
  from assms obtain d where d: "dict_get manifest ''defaults'' (JDict []) = JDict d"
    by (cases "dict_get manifest ''defaults'' (JDict [])")
       (auto simp: manifest_shaped_def manifest_defaults_def)
  from assms obtain tasks where tasks: "dict_get manifest ''tasks'' (JList []) = JList tasks"
    and shaped: "list_all task_shaped tasks"
    by (cases "dict_get manifest ''tasks'' (JList [])") (auto simp: manifest_shaped_def)
  let ?de = "dict_get d ''executor'' (JStr ''claude-code'')"
  let ?dr = "dict_get d ''repo'' (JStr [])"
  let ?db = "dict_get d ''base_branch'' (JStr ''main'')"
  from plan_tasks_total [OF shaped] obtain st where
    run: "plan_tasks ?de ?dr ?db tasks ([], 0) = Inr st"
    by blast
  from plan_tasks_Inr [OF run] obtain blocks where
    blocks: "fst st = concat blocks" "list_all2 (task_block ?de ?dr ?db) tasks blocks"
    by auto
  have "list_all (\<lambda>s. lookup s ''action'' \<noteq> None) (fst st)"
    unfolding blocks(1) list_all_concat
    by (rule list_all2_list_all [OF blocks(2)]) (rule block_has_actions)
  from count_where_total [OF this] obtain n where
    "count_where (fst st) ''action'' ''start_workspace'' = Inr n"
    by blast
  with run show ?thesis
    by (simp add: plan_execution_def d tasks)
qed

lemma plan_execution_parent: "plan_execution parent_manifest = Inr parent_plan"
  by code_simp

text \<open>The example manifest has the shape of the data model.\<close>

lemma parent_manifest_shaped: "manifest_shaped parent_manifest"
  by (simp add: manifest_shaped_def manifest_defaults_def parent_manifest_def dict_get_def
        task_shaped_def lookup_def fallback_value_def subtask_shaped_def)

text \<open>
  Claim C1. For every manifest of the shape of the data model \<open>plan_execution\<close> returns a
  plan; and whenever it returns a plan, for any manifest, the steps are, task by task in
  the order of the manifest, the task's \<^verbatim>\<open>create_task\<close> step, then its
  \<^verbatim>\<open>start_workspace\<close> step, then one \<^verbatim>\<open>create_task\<close> step for each subtask in the
  declared order, titled as the subtask; no other step is there, so no subtask has a
  \<^verbatim>\<open>start_workspace\<close> step. The first equation gives the actions of the steps, the
  second their titles.
\<close>

theorem plan_execution_step_order:
  "(manifest_shaped manifest \<longrightarrow> (\<exists>plan. plan_execution manifest = Inr plan)) \<and>
   (\<forall>plan. plan_execution manifest = Inr plan \<longrightarrow>
      map action_of (steps plan) =
        concat (map (\<lambda>task. Inr (JStr ''create_task'') # Inr (JStr ''start_workspace'') #
                      replicate (length (task_subtasks task)) (Inr (JStr ''create_task'')))
                  (manifest_tasks manifest)) \<and>
      map title_of (steps plan) =
        concat (map (\<lambda>task. title_of task # title_of task #
                      map subtask_title (task_subtasks task))
                  (manifest_tasks manifest)))"
proof (intro conjI allI impI)
  assume "manifest_shaped manifest"
  then show "\<exists>plan. plan_execution manifest = Inr plan"
    by (rule plan_execution_total)
next
  fix plan assume "plan_execution manifest = Inr plan"
  from steps_actions [OF this]
  show "map action_of (steps plan) =
        concat (map (\<lambda>task. Inr (JStr ''create_task'') # Inr (JStr ''start_workspace'') #
                      replicate (length (task_subtasks task)) (Inr (JStr ''create_task'')))
                  (manifest_tasks manifest))"
    by simp
next
  fix plan assume "plan_execution manifest = Inr plan"
  from steps_titles [OF this]
  show "map title_of (steps plan) =
        concat (map (\<lambda>task. title_of task # title_of task #
                      map subtask_title (task_subtasks task))
                  (manifest_tasks manifest))"
    by simp
qed

text \<open>
  The example manifest has the shape of the data model: two tasks, the first with two
  subtasks. Its plan has the six steps in this order.
\<close>

theorem plan_execution_step_order_witness:
  "manifest_shaped parent_manifest \<and>
   plan_execution parent_manifest = Inr parent_plan \<and>
   map action_of (steps parent_plan) =
     [Inr (JStr ''create_task''), Inr (JStr ''start_workspace''), Inr (JStr ''create_task''),
      Inr (JStr ''create_task''), Inr (JStr ''create_task''), Inr (JStr ''start_workspace'')] \<and>
   map title_of (steps parent_plan) =
     [Inr (JStr ''Parent''), Inr (JStr ''Parent''), Inr (JStr ''Sub A''), Inr (JStr ''Sub B''),
      Inr (JStr ''Build the widget''), Inr (JStr ''Build the widget'')]"
proof -
  have tasks: "manifest_tasks parent_manifest =
     [JDict [(''title'', JStr ''Parent''), (''executor'', JStr ''claude-code''),
                 (''subtasks'', JList [JStr ''Sub A'', JDict [(''title'', JStr ''Sub B'')]])],
          JDict [(''title'', JStr ''Build the widget''), (''priority'', JStr ''High'')]]"
    by (simp add: manifest_tasks_def parent_manifest_def dict_get_def)
  from plan_execution_step_order [of parent_manifest] parent_manifest_shaped obtain p where
    p: "plan_execution parent_manifest = Inr p"
    by blast
  with plan_execution_parent have "p = parent_plan"
    by simp
  with plan_execution_step_order [of parent_manifest] p parent_manifest_shaped show ?thesis
    by (simp add: tasks task_subtasks_def dict_get_def subtask_title_def dict_getitem_def)
qed

lemma Inr_blocks:
  "concat (map (\<lambda>task. Inr a # Inr b # replicate (n task) (Inr c)) ts) =
   map Inr (concat (map (\<lambda>task. a # b # replicate (n task) c) ts))"
  by (induction ts) auto

lemma count_start_workspace:
  "length (filter (\<lambda>y. y = JStr ''start_workspace'')
     (concat (map (\<lambda>task. JStr ''create_task'' # JStr ''start_workspace'' #
                    replicate (n task) (JStr ''create_task'')) ts))) = length ts"
  by (induction ts) auto

lemma length_blocks:
  "int (length (concat (map (\<lambda>task. a # b # replicate (n task) c) ts))) =
   2 * int (length ts) + (\<Sum>t\<leftarrow>ts. int (n t))"
  by (induction ts) auto

text \<open>The counts of every plan \<open>plan_execution\<close> returns.\<close>

lemma plan_counts:
  assumes "plan_execution manifest = Inr plan"
  shows "int (length (steps plan)) = 2 * n_tasks manifest + n_subtasks manifest \<and>
         total_tasks (summary plan) = n_tasks manifest \<and>
         total_subtasks (summary plan) = n_subtasks manifest \<and>
         total_workspaces (summary plan) = n_tasks manifest"
proof -
  let ?ys = "concat (map (\<lambda>task. JStr ''create_task'' # JStr ''start_workspace'' #
                    replicate (length (task_subtasks task)) (JStr ''create_task''))
               (manifest_tasks manifest))"
  have acts: "map (\<lambda>s. py_getitem s ''action'') (steps plan) = map Inr ?ys"
    using steps_actions [OF assms] by (simp add: Inr_blocks)
  have "length (steps plan) = length ?ys"
    using arg_cong [OF acts, of length] by simp
  then have len: "int (length (steps plan)) = 2 * n_tasks manifest + n_subtasks manifest"
    by (simp only: length_blocks n_tasks_def n_subtasks_def)
  from plan_execution_blocks [OF assms] have
    sums: "total_tasks (summary plan) = n_tasks manifest"
          "total_subtasks (summary plan) = n_subtasks manifest" and
    cnt: "count_where (steps plan) ''action'' ''start_workspace'' = Inr (total_workspaces (summary plan))"
    by auto
  have "total_workspaces (summary plan) = n_tasks manifest"
    using cnt count_where_actions [OF acts, of "''start_workspace''"]
    by (simp add: count_start_workspace n_tasks_def)
  with len sums show ?thesis by simp
qed

text \<open>
  Claim C4. For a manifest with N tasks and S subtask entries in all, \<open>plan_execution\<close>
  returns a plan when the manifest has the shape of the data model, and every plan it
  returns has 2N + S steps and a summary that counts N tasks, S subtasks and N
  workspaces.
\<close>

theorem plan_execution_counts:
  "(manifest_shaped manifest \<longrightarrow> (\<exists>plan. plan_execution manifest = Inr plan)) \<and>
   (\<forall>plan. plan_execution manifest = Inr plan \<longrightarrow>
      int (length (steps plan)) = 2 * n_tasks manifest + n_subtasks manifest \<and>
      total_tasks (summary plan) = n_tasks manifest \<and>
      total_subtasks (summary plan) = n_subtasks manifest \<and>
      total_workspaces (summary plan) = n_tasks manifest)"
  using plan_execution_total [of manifest] plan_counts [of manifest] by blast

text \<open>The example manifest has N = 2 and S = 2, and its plan six steps.\<close>

theorem plan_execution_counts_witness:
  "manifest_shaped parent_manifest \<and>
   plan_execution parent_manifest = Inr parent_plan \<and>
   n_tasks parent_manifest = 2 \<and> n_subtasks parent_manifest = 2 \<and>
   int (length (steps parent_plan)) = 2 * 2 + 2 \<and>
   total_tasks (summary parent_plan) = 2 \<and>
   total_subtasks (summary parent_plan) = 2 \<and>
   total_workspaces (summary parent_plan) = 2"
proof -
  have s: "manifest_shaped parent_manifest"
    by (simp add: manifest_shaped_def manifest_defaults_def parent_manifest_def dict_get_def
          task_shaped_def lookup_def fallback_value_def subtask_shaped_def)
  have n: "n_tasks parent_manifest = 2" "n_subtasks parent_manifest = 2"
    by (simp_all add: n_tasks_def n_subtasks_def manifest_tasks_def parent_manifest_def dict_get_def
          task_subtasks_def)
  from plan_execution_counts [of parent_manifest] s obtain p where
    p: "plan_execution parent_manifest = Inr p"
    by blast
  with plan_execution_parent have "p = parent_plan"
    by simp
  with plan_execution_counts [of parent_manifest] p s n show ?thesis
    by simp
qed

lemma block_workspace:
  assumes "task_block de dr db task blk"
  shows "map (\<lambda>s. (title_of s, py_getitem s ''executor'', py_getitem s ''repo'',
                    py_getitem s ''base_branch''))
           (filter (\<lambda>s. py_getitem s ''action'' = Inr (JStr ''start_workspace'')) blk) =
         [(title_of task, Inr (fallback_value task ''executor'' de),
           Inr (fallback_value task ''repo'' dr), Inr (fallback_value task ''base_branch'' db))]"
proof -
  from assms obtain c w ss where blk: "blk = c # w # ss"
    by (auto simp: task_block_def split: list.splits)
  from assms obtain t where t: "task = JDict t"
    by (cases task) (auto simp: task_block_def blk lookup_def)
  have ss: "filter (\<lambda>s. py_getitem s ''action'' = Inr (JStr ''start_workspace'')) ss = []"
    using assms
    by (intro filter_replicate_other [where a = "Inr (JStr ''create_task'')"])
       (auto simp: task_block_def blk)
  have get: "py_get task k d = Inr (fallback_value task k d)" for k d
    by (simp add: t fallback_value_def lookup_def dict_get_def)
  show ?thesis
    using assms by (simp add: blk ss task_block_def get [symmetric])
qed

text \<open>
  The \<^verbatim>\<open>start_workspace\<close> steps of a plan are one per task, in the order of the tasks, with
  the values of the task, else of the defaults, else the fixed ones.
\<close>

lemma workspace_steps_fallback:
  assumes "plan_execution manifest = Inr plan"
  shows "map (\<lambda>s. (title_of s, py_getitem s ''executor'', py_getitem s ''repo'',
                    py_getitem s ''base_branch''))
           (workspace_steps plan) =
         map (\<lambda>task. (title_of task,
                 Inr (fallback_value task ''executor''
                        (fallback_value (manifest_defaults manifest) ''executor'' (JStr ''claude-code''))),
                 Inr (fallback_value task ''repo''
                        (fallback_value (manifest_defaults manifest) ''repo'' (JStr []))),
                 Inr (fallback_value task ''base_branch''
                        (fallback_value (manifest_defaults manifest) ''base_branch'' (JStr ''main'')))))
           (manifest_tasks manifest)"
proof -
  let ?F = "\<lambda>s. (title_of s, py_getitem s ''executor'', py_getitem s ''repo'',
                    py_getitem s ''base_branch'')"
  let ?W = "filter (\<lambda>s. py_getitem s ''action'' = Inr (JStr ''start_workspace''))"
  from plan_execution_blocks [OF assms] obtain blocks where
    b: "steps plan = concat blocks"
       "list_all2 (task_block (default_of manifest ''executor'' (JStr ''claude-code''))
                        (default_of manifest ''repo'' (JStr []))
                        (default_of manifest ''base_branch'' (JStr ''main'')))
             (manifest_tasks manifest) blocks"
    by blast
  have "map (\<lambda>blk. map ?F (?W blk)) blocks =
        map (\<lambda>task. [(title_of task,
                 Inr (fallback_value task ''executor'' (default_of manifest ''executor'' (JStr ''claude-code''))),
                 Inr (fallback_value task ''repo'' (default_of manifest ''repo'' (JStr []))),
                 Inr (fallback_value task ''base_branch'' (default_of manifest ''base_branch'' (JStr ''main''))))])
          (manifest_tasks manifest)"
    by (rule list_all2_map_eq [OF b(2)]) (rule block_workspace)
  then have "concat (map (\<lambda>blk. map ?F (?W blk)) blocks) =
        map (\<lambda>task. (title_of task,
                 Inr (fallback_value task ''executor'' (default_of manifest ''executor'' (JStr ''claude-code''))),
                 Inr (fallback_value task ''repo'' (default_of manifest ''repo'' (JStr []))),
                 Inr (fallback_value task ''base_branch'' (default_of manifest ''base_branch'' (JStr ''main'')))))
          (manifest_tasks manifest)"
    by simp
  then show ?thesis
    by (simp add: workspace_steps_def b(1) filter_concat map_concat o_def default_of_def)
qed

text \<open>
  Claim C8. For every manifest of the shape of the data model \<open>plan_execution\<close> returns a
  plan; and whenever it returns a plan, for any manifest, its \<^verbatim>\<open>start_workspace\<close> steps are
  one per task, in the order of the tasks, each with the task's title and with the
  executor, repo and base branch resolved from the task's own value, else the value of
  the manifest's defaults, else \<^verbatim>\<open>"claude-code"\<close>, the empty string and \<^verbatim>\<open>"main"\<close>. A value
  counts as given when its key is present.
\<close>

theorem plan_execution_fallback:
  "(manifest_shaped manifest \<longrightarrow> (\<exists>plan. plan_execution manifest = Inr plan)) \<and>
   (\<forall>plan. plan_execution manifest = Inr plan \<longrightarrow>
      map (\<lambda>s. (title_of s, py_getitem s ''executor'', py_getitem s ''repo'',
                 py_getitem s ''base_branch''))
        (workspace_steps plan) =
      map (\<lambda>task. (title_of task,
              Inr (fallback_value task ''executor''
                     (fallback_value (manifest_defaults manifest) ''executor'' (JStr ''claude-code''))),
              Inr (fallback_value task ''repo''
                     (fallback_value (manifest_defaults manifest) ''repo'' (JStr []))),
              Inr (fallback_value task ''base_branch''
                     (fallback_value (manifest_defaults manifest) ''base_branch'' (JStr ''main'')))))
        (manifest_tasks manifest))"
  using plan_execution_total [of manifest] workspace_steps_fallback [of manifest] by blast

text \<open>
  In the example, which has the shape of the data model, the first task names its
  executor, the second takes the one of the defaults; both take the repo of the defaults
  and, the defaults naming no branch, \<^verbatim>\<open>"main"\<close>.
\<close>

theorem plan_execution_fallback_witness:
  "manifest_shaped parent_manifest \<and>
   plan_execution parent_manifest = Inr parent_plan \<and>
   map (\<lambda>s. (title_of s, py_getitem s ''executor'', py_getitem s ''repo'',
              py_getitem s ''base_branch''))
     (workspace_steps parent_plan) =
   [(Inr (JStr ''Parent''), Inr (JStr ''claude-code''), Inr (JStr ''repo-uuid-123''), Inr (JStr ''main'')),
    (Inr (JStr ''Build the widget''), Inr (JStr ''codex''), Inr (JStr ''repo-uuid-123''),
     Inr (JStr ''main''))]"
proof -
  have tasks: "manifest_tasks parent_manifest =
     [JDict [(''title'', JStr ''Parent''), (''executor'', JStr ''claude-code''),
                 (''subtasks'', JList [JStr ''Sub A'', JDict [(''title'', JStr ''Sub B'')]])],
          JDict [(''title'', JStr ''Build the widget''), (''priority'', JStr ''High'')]]"
    by (simp add: manifest_tasks_def parent_manifest_def dict_get_def)
  have defaults: "manifest_defaults parent_manifest =
      JDict [(''executor'', JStr ''codex''), (''repo'', JStr ''repo-uuid-123'')]"
    by (simp add: manifest_defaults_def parent_manifest_def dict_get_def)
  from plan_execution_fallback [of parent_manifest] parent_manifest_shaped obtain p where
    p: "plan_execution parent_manifest = Inr p"
    by blast
  with plan_execution_parent have "p = parent_plan"
    by simp
  with plan_execution_fallback [of parent_manifest] p parent_manifest_shaped show ?thesis
    by (simp add: tasks defaults fallback_value_def lookup_def dict_getitem_def)
qed

lemma block_plan_steps:
  assumes blk: "task_block de dr db task blk" and str: "string_titled task"
  shows "list_all plan_step blk"
proof -
  from blk obtain c w ss where cws: "blk = c # w # ss"
    by (auto simp: task_block_def split: list.splits)
  from blk obtain t where t: "task = JDict t"
    by (cases task) (auto simp: task_block_def cws lookup_def)
  from str obtain title where title: "title_of task = Inr (JStr title)"
    by (auto simp: string_titled_def is_string_def split: sum.splits json.splits)
  have c: "plan_step c"
    using blk title by (auto simp: task_block_def cws plan_step_def getitem_lookup)
  have "py_getitem w ''executor'' = Inr (dict_get t ''executor'' de)"
    using blk by (simp add: task_block_def cws t)
  then have w: "plan_step w"
    using blk title by (auto simp: task_block_def cws plan_step_def getitem_lookup)
  have "plan_step s" if s: "s \<in> set ss" for s
  proof -
    from s obtain i where i: "i < length ss" "s = ss ! i"
      by (auto simp: in_set_conv_nth)
    from blk have ma: "map action_of ss =
        replicate (length (task_subtasks task)) (Inr (JStr ''create_task''))"
      and mt: "map title_of ss = map subtask_title (task_subtasks task)"
      by (simp_all add: task_block_def cws)
    from arg_cong [OF mt, of length] have len: "length ss = length (task_subtasks task)"
      by simp
    have "action_of s = map action_of ss ! i"
      using i by simp
    also have "\<dots> = Inr (JStr ''create_task'')"
      unfolding ma using i len by simp
    finally have a: "action_of s = Inr (JStr ''create_task'')" .
    have "title_of s = map title_of ss ! i"
      using i by simp
    also have "\<dots> = subtask_title (task_subtasks task ! i)"
      unfolding mt using i len by simp
    finally have ti: "title_of s = subtask_title (task_subtasks task ! i)" .
    from str i len have "is_string (subtask_title (task_subtasks task ! i))"
      by (simp add: string_titled_def list_all_length)
    with ti obtain st where st: "title_of s = Inr (JStr st)"
      by (auto simp: is_string_def split: sum.splits json.splits)
    from blk s have "lookup s ''description'' \<noteq> None"
      by (simp add: task_block_def cws list_all_iff)
    with a st show ?thesis
      by (auto simp: plan_step_def getitem_lookup)
  qed
  with c w show ?thesis
    by (simp add: cws list_all_iff)
qed

text \<open>
  The steps \<open>plan_execution\<close> returns are steps of the data model, as \<open>plan_step\<close>
  states it, whenever the titles of the tasks and of their subtasks are strings.
\<close>

theorem planned_steps_well_formed:
  assumes "plan_execution manifest = Inr plan"
    and "list_all string_titled (manifest_tasks manifest)"
  shows "list_all plan_step (steps plan)"
proof -
  from plan_execution_blocks [OF assms(1)] obtain blocks where
    b: "steps plan = concat blocks"
       "list_all2 (task_block (default_of manifest ''executor'' (JStr ''claude-code''))
                        (default_of manifest ''repo'' (JStr []))
                        (default_of manifest ''base_branch'' (JStr ''main'')))
             (manifest_tasks manifest) blocks"
    by blast
  show ?thesis
    unfolding b(1) list_all_concat
    by (rule list_all2_list_all_left [OF b(2) assms(2)]) (rule block_plan_steps)
qed

theorem planned_steps_well_formed_witness:
  "plan_execution parent_manifest = Inr parent_plan \<and>
   list_all string_titled (manifest_tasks parent_manifest) \<and>
   list_all plan_step (steps parent_plan)"
proof -
  have t: "list_all string_titled (manifest_tasks parent_manifest)"
    by (simp add: manifest_tasks_def parent_manifest_def dict_get_def string_titled_def
          is_string_def dict_getitem_def task_subtasks_def subtask_title_def)
  from planned_steps_well_formed [OF plan_execution_parent t] plan_execution_parent t
  show ?thesis by simp
qed

subsection \<open>Remote client\<close>

text \<open>
  Claim C9. \<^verbatim>\<open>VKMcpClient.start_workspace\<close> with the empty string as task identifier makes
  the remote call with no \<^verbatim>\<open>issue_id\<close> argument, and with the empty string as repo
  identifier it makes the call with the empty list under \<^verbatim>\<open>repos\<close>. In both cases the call
  is made and its outcome is the outcome of \<^verbatim>\<open>start_workspace\<close>, which raises nothing of
  its own. This holds whatever \<^verbatim>\<open>str.upper\<close> returns.
\<close>

theorem start_workspace_tolerates_empty:
  "VKMcpClient_start_workspace str_upper call_tool self (JStr []) title (JStr executor) repo_id
       base_branch =
     call_tool self ''start_workspace_session''
       (JDict [(''title'', title), (''executor'', JStr (str_upper executor)),
               (''repos'',
                if py_truthy repo_id
                then JList [JDict [(''repo_id'', repo_id), (''base_branch'', base_branch)]]
                else JList [])]) \<and>
   VKMcpClient_start_workspace str_upper call_tool self task_id title (JStr executor) (JStr [])
       base_branch =
     call_tool self ''start_workspace_session''
       (JDict ([(''title'', title), (''executor'', JStr (str_upper executor)),
                (''repos'', JList [])] @
               (if py_truthy task_id then [(''issue_id'', task_id)] else [])))"
  by (simp add: VKMcpClient_start_workspace_def start_workspace_args_def py_upper_def)

text \<open>
  Claim C10. The executor \<^verbatim>\<open>VKMcpClient.start_workspace\<close> sends to the remote service is
  what \<^verbatim>\<open>str.upper\<close> returns on the given string, for every string. Where \<^verbatim>\<open>str.upper\<close> is
  on ASCII strings what \<open>ascii_upper\<close> says, as Python's is, an ASCII executor is sent
  with its letters \<^verbatim>\<open>a\<close> to \<^verbatim>\<open>z\<close> in capitals: \<^verbatim>\<open>"claude-code"\<close> is sent as \<^verbatim>\<open>"CLAUDE-CODE"\<close>,
  and so every executor the validator accepts, all of them ASCII and written in lower
  case. Of an executor with other characters the theorem says only that \<^verbatim>\<open>str.upper\<close> is
  applied to it.
\<close>

theorem start_workspace_uppercases_executor:
  "VKMcpClient_start_workspace str_upper call_tool self task_id title (JStr executor) repo_id
       base_branch =
     call_tool self ''start_workspace_session''
       (JDict ([(''title'', title), (''executor'', JStr (str_upper executor)),
                (''repos'',
                 if py_truthy repo_id
                 then JList [JDict [(''repo_id'', repo_id), (''base_branch'', base_branch)]]
                 else JList [])] @
               (if py_truthy task_id then [(''issue_id'', task_id)] else []))) \<and>
   ((\<forall>s. ascii s \<longrightarrow> str_upper s = ascii_upper s) \<and> ascii executor \<longrightarrow>
      VKMcpClient_start_workspace str_upper call_tool self task_id title (JStr executor) repo_id
          base_branch =
        call_tool self ''start_workspace_session''
          (JDict ([(''title'', title), (''executor'', JStr (ascii_upper executor)),
                   (''repos'',
                    if py_truthy repo_id
                    then JList [JDict [(''repo_id'', repo_id), (''base_branch'', base_branch)]]
                    else JList [])] @
                  (if py_truthy task_id then [(''issue_id'', task_id)] else [])))) \<and>
   ascii ''claude-code'' \<and> ascii_upper ''claude-code'' = ''CLAUDE-CODE'' \<and>
   list_all ascii VALID_EXECUTORS \<and>
   map ascii_upper VALID_EXECUTORS =
     [''CLAUDE-CODE'', ''CODEX'', ''GEMINI'', ''AMP'', ''COPILOT'', ''CURSOR_AGENT'', ''QWEN-CODE'',
      ''DROID'', ''OPENCODE'']"
proof -
  have sent: "VKMcpClient_start_workspace str_upper call_tool self task_id title (JStr executor)
       repo_id base_branch =
     call_tool self ''start_workspace_session''
       (JDict ([(''title'', title), (''executor'', JStr (str_upper executor)),
                (''repos'',
                 if py_truthy repo_id
                 then JList [JDict [(''repo_id'', repo_id), (''base_branch'', base_branch)]]
                 else JList [])] @
               (if py_truthy task_id then [(''issue_id'', task_id)] else [])))"
    by (simp add: VKMcpClient_start_workspace_def start_workspace_args_def py_upper_def)
  have one: "ascii ''claude-code'' \<and> ascii_upper ''claude-code'' = ''CLAUDE-CODE''"
    unfolding ascii_def ascii_upper_def ascii_upper_char_def by code_simp
  have all: "list_all ascii VALID_EXECUTORS \<and>
     map ascii_upper VALID_EXECUTORS =
       [''CLAUDE-CODE'', ''CODEX'', ''GEMINI'', ''AMP'', ''COPILOT'', ''CURSOR_AGENT'', ''QWEN-CODE'',
        ''DROID'', ''OPENCODE'']"
    unfolding ascii_def ascii_upper_def ascii_upper_char_def by code_simp
  from sent one all show ?thesis
    by simp
qed

text \<open>
  With \<open>ascii_upper\<close> for \<^verbatim>\<open>str.upper\<close> and the transport that answers with what it got,
  the call for \<^verbatim>\<open>"claude-code"\<close> sends \<^verbatim>\<open>"CLAUDE-CODE"\<close>.
\<close>

theorem start_workspace_uppercases_executor_witness:
  "ascii ''claude-code'' \<and>
   VKMcpClient_start_workspace ascii_upper echo_call_tool () (JStr ''task-001'')
       (JStr ''Build the widget'') (JStr ''claude-code'') (JStr ''repo-uuid-123'') (JStr ''main'') =
     (Inr (JDict [(''tool'', JStr ''start_workspace_session''),
                  (''arguments'',
                   JDict [(''title'', JStr ''Build the widget''), (''executor'', JStr ''CLAUDE-CODE''),
                          (''repos'', JList [JDict [(''repo_id'', JStr ''repo-uuid-123''),
                                                    (''base_branch'', JStr ''main'')]]),
                          (''issue_id'', JStr ''task-001'')])]), ())"
proof -
  note th = start_workspace_uppercases_executor
    [where str_upper = ascii_upper and call_tool = echo_call_tool and self = "()"
       and task_id = "JStr ''task-001''" and title = "JStr ''Build the widget''"
       and executor = "''claude-code''" and repo_id = "JStr ''repo-uuid-123''"
       and base_branch = "JStr ''main''"]
  from th have a: "ascii ''claude-code''" and u: "ascii_upper ''claude-code'' = ''CLAUDE-CODE''"
    by blast+
  from th a have "VKMcpClient_start_workspace ascii_upper echo_call_tool () (JStr ''task-001'')
       (JStr ''Build the widget'') (JStr ''claude-code'') (JStr ''repo-uuid-123'') (JStr ''main'') =
     echo_call_tool () ''start_workspace_session''
       (JDict ([(''title'', JStr ''Build the widget''),
                (''executor'', JStr (ascii_upper ''claude-code'')),
                (''repos'',
                 if py_truthy (JStr ''repo-uuid-123'')
                 then JList [JDict [(''repo_id'', JStr ''repo-uuid-123''),
                                    (''base_branch'', JStr ''main'')]]
                 else JList [])] @
               (if py_truthy (JStr ''task-001'') then [(''issue_id'', JStr ''task-001'')] else [])))"
    by blast
  with a u show ?thesis
    by (simp add: echo_call_tool_def)
qed

subsection \<open>Executor\<close>

lemma try_create_task_eq:
  assumes "map_of d ''title'' = Some title" "map_of d ''description'' = Some descr"
    and "client_create_task cl c pid title descr = (r, c')"
  shows "try_create_task cl pid d action c tbl =
           (and_then (created_id r) (\<lambda>p.
            and_then (table_set tbl title (snd p)) (\<lambda>tbl'.
            Inr (JDict [(''action'', action), (''title'', title), (''status'', JStr ''success''),
                        (''task_id'', snd p), (''detail'', fst p)], tbl'))), c')"
  using assms
  by (cases r) (auto simp: try_create_task_def dict_getitem_def created_id_def and_then_def
                     split: sum.splits)

lemma error_result_eq:
  "map_of d ''title'' = Some title \<Longrightarrow>
   error_result (JStr action) d e = Inr (step_error action title e)"
  by (simp add: error_result_def dict_getitem_def step_error_def)

lemma execute_step_create_task:
  assumes a: "map_of d ''action'' = Some (JStr ''create_task'')"
    and t: "map_of d ''title'' = Some title" and de: "map_of d ''description'' = Some descr"
    and call: "client_create_task cl c pid title descr = (r, c')"
  shows "execute_step cl pid (JDict d) (c, tbl, rs) =
           Inr (case and_then (created_id r) (\<lambda>p. and_then (hash_key title) (\<lambda>k. Inr (fst p, snd p, k))) of
                  Inl e \<Rightarrow> (c', tbl, rs @ [step_error ''create_task'' title e])
                | Inr (resp, task_id, k) \<Rightarrow>
                    (c', tbl(k \<mapsto> task_id), rs @ [create_task_success title task_id resp]))"
proof (cases "created_id r")
  case (Inl e)
  then show ?thesis
    by (simp add: execute_step_def dict_getitem_def a try_create_task_eq [OF t de call]
          error_result_eq [OF t])
next
  case (Inr p)
  show ?thesis
  proof (cases "hash_key title")
    case (Inl e)
    then show ?thesis
      by (simp add: execute_step_def dict_getitem_def a try_create_task_eq [OF t de call] Inr
            error_result_eq [OF t] table_set_def)
  next
    case k: (Inr k)
    then show ?thesis
      by (cases p)
         (simp add: execute_step_def dict_getitem_def a try_create_task_eq [OF t de call] Inr
            table_set_def create_task_success_def)
  qed
qed

lemma execute_step_start_workspace:
  assumes a: "map_of d ''action'' = Some (JStr ''start_workspace'')"
    and t: "map_of d ''title'' = Some title" and ex: "map_of d ''executor'' = Some executor"
    and k: "hash_key title = Inr k"
    and call: "client_start_workspace cl c (case tbl k of None \<Rightarrow> JStr [] | Some i \<Rightarrow> i) title executor
                 (dict_get d ''repo'' (JStr [])) (dict_get d ''base_branch'' (JStr ''main'')) = (r, c')"
  shows "execute_step cl pid (JDict d) (c, tbl, rs) =
           Inr (c', tbl,
                rs @ [case and_then r (\<lambda>resp.
                           and_then (py_get resp ''workspace_id'' (JStr [])) (\<lambda>w. Inr (resp, w))) of
                        Inl e \<Rightarrow> step_error ''start_workspace'' title e
                      | Inr (resp, w) \<Rightarrow>
                          start_workspace_success title (case tbl k of None \<Rightarrow> JStr [] | Some i \<Rightarrow> i)
                            w executor resp])"
proof -
  have tr: "try_start_workspace cl d (JStr ''start_workspace'')
               (case tbl k of None \<Rightarrow> JStr [] | Some i \<Rightarrow> i) c =
             (and_then r (\<lambda>resp.
              and_then (py_get resp ''workspace_id'' (JStr [])) (\<lambda>w.
              Inr (start_workspace_success title (case tbl k of None \<Rightarrow> JStr [] | Some i \<Rightarrow> i)
                     w executor resp))), c')"
    by (simp add: try_start_workspace_def dict_getitem_def t ex call start_workspace_success_def)
  show ?thesis
  proof (cases r)
    case (Inl e)
    then show ?thesis
      by (simp add: execute_step_def dict_getitem_def a t k table_get_def tr error_result_eq [OF t])
  next
    case (Inr resp)
    then show ?thesis
      by (cases "py_get resp ''workspace_id'' (JStr [])")
         (simp_all add: execute_step_def dict_getitem_def a t k table_get_def tr
            error_result_eq [OF t])
  qed
qed

lemma recording_create_task:
  "client_create_task cl c pid title descr = (r, c') \<Longrightarrow>
   client_create_task (recording cl) (log, c) pid title descr =
     (r, (log @ [CreateTaskCall pid title descr], c'))"
  by (simp add: recording_def)

lemma recording_start_workspace:
  "client_start_workspace cl c task_id title executor repo branch = (r, c') \<Longrightarrow>
   client_start_workspace (recording cl) (log, c) task_id title executor repo branch =
     (r, (log @ [StartWorkspaceCall task_id title executor repo branch], c'))"
  by (simp add: recording_def)

text \<open>A step of the data model is a dict with a string under \<^verbatim>\<open>title\<close>.\<close>

lemma plan_stepD:
  assumes "plan_step s"
  obtains d t where "s = JDict d" "map_of d ''title'' = Some (JStr t)"
proof (cases s)
  case (JDict d)
  show ?thesis
  proof (cases "map_of d ''title''")
    case None
    with assms JDict show ?thesis by (simp add: plan_step_def lookup_def)
  next
    case (Some v)
    with assms JDict that show ?thesis
      by (cases v) (simp_all add: plan_step_def lookup_def)
  qed
qed (use assms in \<open>simp_all add: plan_step_def lookup_def\<close>)

text \<open>
  One step of the data model, on any client and on the same client with a log: both runs
  append the same result and reach the same state, and the log gains one call, of the
  kind and with the title of the step.
\<close>

lemma execute_step_both:
  assumes "plan_step s"
  shows "\<exists>c' tbl' r k.
           execute_step cl pid s (c, tbl, rs) = Inr (c', tbl', rs @ [r]) \<and>
           execute_step (recording cl) pid s ((log, c), tbl, rs) = Inr ((log @ [k], c'), tbl', rs @ [r]) \<and>
           action_of r = action_of s \<and> title_of r = title_of s \<and> success_or_error r \<and>
           Inr (call_action k) = action_of s \<and> Inr (call_title k) = title_of s"
proof -
  from assms obtain d t where s: "s = JDict d" and t: "map_of d ''title'' = Some (JStr t)"
    by (rule plan_stepD)
  have k: "hash_key (JStr t) = Inr (JStr t)"
    by simp
  from assms s t consider
    (create) descr where "map_of d ''action'' = Some (JStr ''create_task'')"
      "map_of d ''description'' = Some descr"
  | (start) ex where "map_of d ''action'' = Some (JStr ''start_workspace'')"
      "map_of d ''executor'' = Some ex"
    by (auto simp: plan_step_def lookup_def)
  then show ?thesis
  proof cases
    case create
    obtain r c' where call: "client_create_task cl c pid (JStr t) descr = (r, c')"
      by (cases "client_create_task cl c pid (JStr t) descr")
    note plain = execute_step_create_task [OF create(1) t create(2) call]
    note logged = execute_step_create_task
      [OF create(1) t create(2) recording_create_task [OF call, of log]]
    show ?thesis
      unfolding s plain logged
      by (cases "created_id r")
         (auto simp: step_error_def create_task_success_def success_or_error_def dict_getitem_def
            create(1) t)
  next
    case start
    let ?id = "case tbl (JStr t) of None \<Rightarrow> JStr [] | Some i \<Rightarrow> i"
    obtain r c' where call: "client_start_workspace cl c ?id (JStr t) ex
        (dict_get d ''repo'' (JStr [])) (dict_get d ''base_branch'' (JStr ''main'')) = (r, c')"
      by (cases "client_start_workspace cl c ?id (JStr t) ex
        (dict_get d ''repo'' (JStr [])) (dict_get d ''base_branch'' (JStr ''main''))")
    note plain = execute_step_start_workspace
      [where tbl = tbl and k = "JStr t", OF start(1) t start(2) k call]
    note logged = execute_step_start_workspace
      [where tbl = tbl and k = "JStr t",
       OF start(1) t start(2) k recording_start_workspace [OF call, of log]]
    show ?thesis
      unfolding s plain logged
      by (auto simp: step_error_def start_workspace_success_def success_or_error_def
            dict_getitem_def start(1) t split: sum.splits)
  qed
qed

lemma execute_steps_both:
  assumes "list_all plan_step ss"
  shows "\<exists>c' tbl' new ks.
           execute_steps cl pid ss (c, tbl, rs) = Inr (c', tbl', rs @ new) \<and>
           execute_steps (recording cl) pid ss ((log, c), tbl, rs) =
             Inr ((log @ ks, c'), tbl', rs @ new) \<and>
           map action_of new = map action_of ss \<and> map title_of new = map title_of ss \<and>
           list_all success_or_error new \<and>
           map (\<lambda>k. Inr (call_action k)) ks = map action_of ss \<and>
           map (\<lambda>k. Inr (call_title k)) ks = map title_of ss"
  using assms
proof (induction ss arbitrary: c tbl rs log)
  case Nil
  then show ?case by simp
next
  case (Cons s ss)
  from Cons.prems have s: "plan_step s" and ss: "list_all plan_step ss"
    by simp_all
  from execute_step_both [OF s, of cl pid c tbl rs log] obtain c1 tbl1 r k where
    one: "execute_step cl pid s (c, tbl, rs) = Inr (c1, tbl1, rs @ [r])"
         "execute_step (recording cl) pid s ((log, c), tbl, rs) = Inr ((log @ [k], c1), tbl1, rs @ [r])"
         "action_of r = action_of s" "title_of r = title_of s" "success_or_error r"
         "Inr (call_action k) = action_of s" "Inr (call_title k) = title_of s"
    by blast
  from Cons.IH [OF ss, of c1 tbl1 "rs @ [r]" "log @ [k]"] obtain c' tbl' new ks where
    rest: "execute_steps cl pid ss (c1, tbl1, rs @ [r]) = Inr (c', tbl', (rs @ [r]) @ new)"
          "execute_steps (recording cl) pid ss ((log @ [k], c1), tbl1, rs @ [r]) =
             Inr (((log @ [k]) @ ks, c'), tbl', (rs @ [r]) @ new)"
          "map action_of new = map action_of ss" "map title_of new = map title_of ss"
          "list_all success_or_error new"
          "map (\<lambda>k. Inr (call_action k)) ks = map action_of ss"
          "map (\<lambda>k. Inr (call_title k)) ks = map title_of ss"
    by blast
  show ?case
    apply (rule exI [of _ c'], rule exI [of _ tbl'], rule exI [of _ "r # new"],
           rule exI [of _ "k # ks"])
    using one rest by simp
qed



text \<open>
  The run of the example plan on that client, in full: four error results, and two
  workspaces started with the empty identifier.
\<close>

lemma execute_plan_failing_client:
  "execute_plan parent_plan (recording failing_client) (JStr ''proj-1'') ([], ()) =
     Inr ([step_error ''create_task'' (JStr ''Parent'') (RuntimeError ''MCP error''),
           start_workspace_success (JStr ''Parent'') (JStr []) (JStr ''ws-001'') (JStr ''claude-code'')
             (JDict [(''workspace_id'', JStr ''ws-001'')]),
           step_error ''create_task'' (JStr ''Sub A'') (RuntimeError ''MCP error''),
           step_error ''create_task'' (JStr ''Sub B'') (RuntimeError ''MCP error''),
           step_error ''create_task'' (JStr ''Build the widget'') (RuntimeError ''MCP error''),
           start_workspace_success (JStr ''Build the widget'') (JStr []) (JStr ''ws-001'') (JStr ''codex'')
             (JDict [(''workspace_id'', JStr ''ws-001'')])],
          ([CreateTaskCall (JStr ''proj-1'') (JStr ''Parent'') (JStr []),
            StartWorkspaceCall (JStr []) (JStr ''Parent'') (JStr ''claude-code'')
              (JStr ''repo-uuid-123'') (JStr ''main''),
            CreateTaskCall (JStr ''proj-1'') (JStr ''Sub A'') (JStr ''Subtask of: Parent''),
            CreateTaskCall (JStr ''proj-1'') (JStr ''Sub B'') (JStr ''Subtask of: Parent''),
            CreateTaskCall (JStr ''proj-1'') (JStr ''Build the widget'') (JStr []),
            StartWorkspaceCall (JStr []) (JStr ''Build the widget'') (JStr ''codex'')
              (JStr ''repo-uuid-123'') (JStr ''main'')], ()))"
  by code_simp

lemma created_under_success [simp]:
  "created_under k (create_task_success title i resp) \<longleftrightarrow> hash_key title = Inr k"
  by (simp add: created_under_def create_task_success_def dict_getitem_def)

lemma created_under_error [simp]: "\<not> created_under k (step_error a title e)"
  by (simp add: created_under_def step_error_def dict_getitem_def)

lemma created_under_start [simp]:
  "\<not> created_under k (start_workspace_success title i w ex resp)"
  by (simp add: created_under_def start_workspace_success_def dict_getitem_def)

text \<open>
  A step that returns either leaves the table as it is and appends no success of a
  creation, or it is a creation that succeeds: it sets the entry of its title and appends
  its success.
\<close>

lemma execute_step_table:
  assumes "execute_step cl pid s (c, tbl, rs) = Inr (c', tbl', rs')"
  shows "(tbl' = tbl \<and> (rs' = rs \<or> (\<exists>r. rs' = rs @ [r] \<and> (\<forall>k. \<not> created_under k r)))) \<or>
         (\<exists>title k i resp. hash_key title = Inr k \<and> tbl' = tbl(k \<mapsto> i) \<and>
            rs' = rs @ [create_task_success title i resp])"
proof (cases s)
  case (JDict d)
  show ?thesis
  proof (cases "map_of d ''action''")
    case None
    with assms JDict show ?thesis
      by (simp add: execute_step_def dict_getitem_def)
  next
    case (Some action)
    consider (create) "action = JStr ''create_task''"
      | (start) "action = JStr ''start_workspace''"
      | (other) "action \<noteq> JStr ''create_task''" "action \<noteq> JStr ''start_workspace''"
      by blast
    then show ?thesis
    proof cases
      case create
      note a = Some [unfolded create]
      show ?thesis
      proof (cases "map_of d ''title''")
        case None
        with assms JDict a show ?thesis
          by (simp add: execute_step_def dict_getitem_def try_create_task_def error_result_def)
      next
        case title: (Some title)
        show ?thesis
        proof (cases "map_of d ''description''")
          case None
          with assms JDict a title show ?thesis
            by (auto simp: execute_step_def dict_getitem_def try_create_task_def
                  error_result_eq [OF title])
        next
          case descr: (Some descr)
          obtain r c1 where call: "client_create_task cl c pid title descr = (r, c1)"
            by (cases "client_create_task cl c pid title descr")
          note eq = execute_step_create_task [OF a title descr call, of tbl rs]
          show ?thesis
          proof (cases "and_then (created_id r) (\<lambda>p. and_then (hash_key title) (\<lambda>k. Inr (fst p, snd p, k)))")
            case (Inl e)
            with assms JDict eq show ?thesis by auto
          next
            case (Inr p)
            then obtain resp i k where p: "p = (resp, i, k)" and k: "hash_key title = Inr k"
              by (cases p) (auto simp: and_then_Inr)
            with assms JDict eq Inr show ?thesis by auto
          qed
        qed
      qed
    next
      case start
      note a = Some [unfolded start]
      show ?thesis
      proof (cases "map_of d ''title''")
        case None
        with assms JDict a show ?thesis
          by (simp add: execute_step_def dict_getitem_def)
      next
        case title: (Some title)
        show ?thesis
        proof (cases "hash_key title")
          case (Inl e)
          with assms JDict a title show ?thesis
            by (simp add: execute_step_def dict_getitem_def table_get_def)
        next
          case k: (Inr k)
          show ?thesis
          proof (cases "map_of d ''executor''")
            case None
            with assms JDict a title k show ?thesis
              by (auto simp: execute_step_def dict_getitem_def table_get_def try_start_workspace_def
                    error_result_eq [OF title])
          next
            case ex: (Some ex)
            let ?id = "case tbl k of None \<Rightarrow> JStr [] | Some i \<Rightarrow> i"
            obtain r c1 where call: "client_start_workspace cl c ?id title ex
                (dict_get d ''repo'' (JStr [])) (dict_get d ''base_branch'' (JStr ''main'')) = (r, c1)"
              by (cases "client_start_workspace cl c ?id title ex
                (dict_get d ''repo'' (JStr [])) (dict_get d ''base_branch'' (JStr ''main''))")
            note eq = execute_step_start_workspace
              [where tbl = tbl and k = k, OF a title ex k call, of pid rs]
            from assms JDict eq show ?thesis
              by (auto split: sum.splits)
          qed
        qed
      qed
    next
      case other
      with assms JDict Some show ?thesis
        by (simp add: execute_step_def dict_getitem_def)
    qed
  qed
qed (use assms in \<open>simp_all add: execute_step_def\<close>)

lemma last_created_Nil [simp]: "last_created k [] = None"
  by (simp add: last_created_def)

lemma last_created_other [simp]:
  "\<not> created_under k r \<Longrightarrow> last_created k (rs @ [r]) = last_created k rs"
  by (simp add: last_created_def)

lemma task_id_success:
  "py_getitem (create_task_success title i resp) ''task_id'' = Inr i"
  by (simp add: create_task_success_def dict_getitem_def)

lemma last_created_success [simp]:
  "hash_key title = Inr ka \<Longrightarrow>
   last_created k (rs @ [create_task_success title i resp]) =
     (if k = ka then Some i else last_created k rs)"
  by (simp add: last_created_def task_id_success)

text \<open>
  Hence, all along a run that starts so, the table holds under a key the identifier of
  the last creation under that key that succeeded, and nothing where none did.
\<close>

lemma execute_steps_last_created:
  assumes "execute_steps cl pid ss (c, tbl, rs) = Inr (c', tbl', rs')"
    and "tbl k = last_created k rs"
  shows "tbl' k = last_created k rs'"
  using assms
proof (induction ss arbitrary: c tbl rs)
  case Nil
  then show ?case by simp
next
  case (Cons s ss)
  from Cons.prems(1) obtain c1 tbl1 rs1 where
    one: "execute_step cl pid s (c, tbl, rs) = Inr (c1, tbl1, rs1)" and
    rest: "execute_steps cl pid ss (c1, tbl1, rs1) = Inr (c', tbl', rs')"
    by (auto simp: and_then_Inr)
  have "tbl1 k = last_created k rs1"
    using execute_step_table [OF one]
  proof (elim disjE conjE exE)
    assume "tbl1 = tbl" "rs1 = rs"
    with Cons.prems(2) show ?thesis by simp
  next
    fix r assume "tbl1 = tbl" "rs1 = rs @ [r]" "\<forall>k. \<not> created_under k r"
    with Cons.prems(2) show ?thesis by simp
  next
    fix title ka i resp
    assume "hash_key title = Inr ka" "tbl1 = tbl(ka \<mapsto> i)"
      "rs1 = rs @ [create_task_success title i resp]"
    with Cons.prems(2) show ?thesis by simp
  qed
  from Cons.IH [OF rest this] show ?case .
qed

text \<open>
  Claim C3 as stated fails where a title occurs twice. In the plan of the manifest with
  two tasks titled \<^verbatim>\<open>Fix login\<close>, on a client whose first \<^verbatim>\<open>create_task\<close> succeeds and whose
  second raises, the third step is the failed creation, and the \<^verbatim>\<open>start_workspace\<close> step
  after it, for the same title, is called with the identifier \<^verbatim>\<open>task-001\<close> of the first
  creation, not with the empty string.
\<close>

theorem failed_create_keeps_earlier_identifier:
  "plan_execution twin_manifest = Inr twin_plan \<and>
   execute_plan twin_plan (recording create_once_client) (JStr ''proj-1'') ([], 0) =
     Inr ([create_task_success (JStr ''Fix login'') (JStr ''task-001'')
             (JDict [(''issue_id'', JStr ''task-001'')]),
           start_workspace_success (JStr ''Fix login'') (JStr ''task-001'') (JStr ''ws-001'')
             (JStr ''claude-code'') (JDict [(''workspace_id'', JStr ''ws-001'')]),
           step_error ''create_task'' (JStr ''Fix login'') (RuntimeError ''MCP error''),
           start_workspace_success (JStr ''Fix login'') (JStr ''task-001'') (JStr ''ws-001'')
             (JStr ''claude-code'') (JDict [(''workspace_id'', JStr ''ws-001'')])],
          ([CreateTaskCall (JStr ''proj-1'') (JStr ''Fix login'') (JStr []),
            StartWorkspaceCall (JStr ''task-001'') (JStr ''Fix login'') (JStr ''claude-code'')
              (JStr []) (JStr ''main''),
            CreateTaskCall (JStr ''proj-1'') (JStr ''Fix login'') (JStr []),
            StartWorkspaceCall (JStr ''task-001'') (JStr ''Fix login'') (JStr ''claude-code'')
              (JStr []) (JStr ''main'')], 2))"
  by code_simp

text \<open>
  Claim C3, amended. For a \<^verbatim>\<open>create_task\<close> step \<open>d\<close> and a \<^verbatim>\<open>start_workspace\<close> step \<open>w\<close> of
  the same hashable title, in any state of the run, with any steps \<open>rest\<close> to follow:
  if the call of \<^verbatim>\<open>create_task\<close> raises, the step appends an error result, leaves the
  table as it is, and the run goes on; if the call returns a dict, the step records the
  identifier under the title, in place of any earlier entry, and appends a success
  result; the \<^verbatim>\<open>start_workspace\<close> step calls the client with the identifier the table
  holds for the title at that moment, which is the empty string when it holds none; and in
  a state that \<open>execute_plan\<close> has reached by the steps \<open>before\<close>, the table holds the
  identifier of the last creation under that title that succeeded among them, and none
  when none did.
\<close>

theorem create_task_outcome_and_table:
  assumes "map_of d ''action'' = Some (JStr ''create_task'')"
    and "map_of d ''title'' = Some title" and "map_of d ''description'' = Some descr"
    and "map_of w ''action'' = Some (JStr ''start_workspace'')"
    and "map_of w ''title'' = Some title" and "map_of w ''executor'' = Some executor"
    and "hash_key title = Inr k"
  shows "(\<forall>e c'. client_create_task cl c pid title descr = (Inl e, c') \<longrightarrow>
            execute_steps cl pid (JDict d # rest) (c, tbl, rs) =
              execute_steps cl pid rest (c', tbl, rs @ [step_error ''create_task'' title e])) \<and>
         (\<forall>resp c'. client_create_task cl c pid title descr = (Inr (JDict resp), c') \<longrightarrow>
            execute_steps cl pid (JDict d # rest) (c, tbl, rs) =
              execute_steps cl pid rest
                (c', tbl(k \<mapsto> dict_get resp ''issue_id'' (dict_get resp ''id'' (JStr []))),
                 rs @ [create_task_success title
                         (dict_get resp ''issue_id'' (dict_get resp ''id'' (JStr []))) (JDict resp)])) \<and>
         (\<exists>r c'. execute_steps (recording cl) pid (JDict w # rest) ((log, c), tbl, rs) =
            execute_steps (recording cl) pid rest
              ((log @ [StartWorkspaceCall (case tbl k of None \<Rightarrow> JStr [] | Some i \<Rightarrow> i) title
                         executor (dict_get w ''repo'' (JStr []))
                         (dict_get w ''base_branch'' (JStr ''main''))], c'),
               tbl, rs @ [r])) \<and>
         (execute_steps cl pid before (c0, Map.empty, []) = Inr (c, tbl, rs) \<longrightarrow>
            tbl k = last_created k rs)"
proof (intro conjI allI impI)
  assume "execute_steps cl pid before (c0, Map.empty, []) = Inr (c, tbl, rs)"
  from execute_steps_last_created [OF this, of k]
  show "tbl k = last_created k rs" by simp
next
  fix e c'
  assume call: "client_create_task cl c pid title descr = (Inl e, c')"
  show "execute_steps cl pid (JDict d # rest) (c, tbl, rs) =
        execute_steps cl pid rest (c', tbl, rs @ [step_error ''create_task'' title e])"
    by (simp add: execute_step_create_task [OF assms(1-3) call] created_id_def)
next
  fix resp c'
  assume call: "client_create_task cl c pid title descr = (Inr (JDict resp), c')"
  show "execute_steps cl pid (JDict d # rest) (c, tbl, rs) =
        execute_steps cl pid rest
          (c', tbl(k \<mapsto> dict_get resp ''issue_id'' (dict_get resp ''id'' (JStr []))),
           rs @ [create_task_success title
                   (dict_get resp ''issue_id'' (dict_get resp ''id'' (JStr []))) (JDict resp)])"
    by (simp add: execute_step_create_task [OF assms(1-3) call] created_id_def assms(7))
next
  let ?id = "case tbl k of None \<Rightarrow> JStr [] | Some i \<Rightarrow> i"
  obtain r c' where call: "client_start_workspace cl c ?id title executor
      (dict_get w ''repo'' (JStr [])) (dict_get w ''base_branch'' (JStr ''main'')) = (r, c')"
    by (cases "client_start_workspace cl c ?id title executor
      (dict_get w ''repo'' (JStr [])) (dict_get w ''base_branch'' (JStr ''main''))")
  note step = execute_step_start_workspace
    [where tbl = tbl and k = k, OF assms(4-7) recording_start_workspace [OF call, of log]]
  show "\<exists>r c'. execute_steps (recording cl) pid (JDict w # rest) ((log, c), tbl, rs) =
            execute_steps (recording cl) pid rest
              ((log @ [StartWorkspaceCall ?id title executor (dict_get w ''repo'' (JStr []))
                         (dict_get w ''base_branch'' (JStr ''main''))], c'),
               tbl, rs @ [r])"
    by (intro exI) (simp add: step)
qed

text \<open>
  The two steps of a task of the example plan on the client that raises: the creation
  fails from the empty table, no creation under the title has succeeded then, and the
  workspace is started with the empty identifier. On the mock of the tests, from a table
  that holds an earlier identifier, the creation replaces it.
\<close>

theorem create_task_outcome_and_table_witness:
  "execute_steps failing_client (JStr ''proj-1'') [JDict widget_create] ((), Map.empty, []) =
     Inr ((), Map.empty,
          [step_error ''create_task'' (JStr ''Build the widget'') (RuntimeError ''MCP error'')]) \<and>
   last_created (JStr ''Build the widget'')
       [step_error ''create_task'' (JStr ''Build the widget'') (RuntimeError ''MCP error'')] = None \<and>
   (\<exists>r c'. execute_steps (recording failing_client) (JStr ''proj-1'') [JDict widget_start]
              (([], ()), Map.empty,
               [step_error ''create_task'' (JStr ''Build the widget'') (RuntimeError ''MCP error'')]) =
            Inr (([StartWorkspaceCall (JStr []) (JStr ''Build the widget'') (JStr ''codex'')
                     (JStr ''repo-uuid-123'') (JStr ''main'')], c'),
                 Map.empty,
                 [step_error ''create_task'' (JStr ''Build the widget'') (RuntimeError ''MCP error''),
                  r])) \<and>
   execute_steps mock_client (JStr ''proj-1'') [JDict widget_create]
       ((), [JStr ''Build the widget'' \<mapsto> JStr ''task-000''], []) =
     Inr ((), [JStr ''Build the widget'' \<mapsto> JStr ''task-001''],
          [create_task_success (JStr ''Build the widget'') (JStr ''task-001'')
             (JDict [(''issue_id'', JStr ''task-001'')])])"
proof -
  let ?err = "step_error ''create_task'' (JStr ''Build the widget'') (RuntimeError ''MCP error'')"
  have h: "map_of widget_create ''action'' = Some (JStr ''create_task'')"
    "map_of widget_create ''title'' = Some (JStr ''Build the widget'')"
    "map_of widget_create ''description'' = Some (JStr [])"
    "map_of widget_start ''action'' = Some (JStr ''start_workspace'')"
    "map_of widget_start ''title'' = Some (JStr ''Build the widget'')"
    "map_of widget_start ''executor'' = Some (JStr ''codex'')"
    "hash_key (JStr ''Build the widget'') = Inr (JStr ''Build the widget'')"
    by (simp_all add: widget_create_def widget_start_def)
  note fails = create_task_outcome_and_table
    [where cl = failing_client and c = "()" and tbl = Map.empty and rs = "[]" and rest = "[]"
       and pid = "JStr ''proj-1''" and log = "[]", OF h]
  note after = create_task_outcome_and_table
    [where cl = failing_client and c = "()" and tbl = Map.empty and rs = "[?err]" and rest = "[]"
       and pid = "JStr ''proj-1''" and log = "[]" and before = "[JDict widget_create]"
       and ?c0.0 = "()", OF h]
  note works = create_task_outcome_and_table
    [where cl = mock_client and c = "()" and tbl = "[JStr ''Build the widget'' \<mapsto> JStr ''task-000'']"
       and rs = "[]" and rest = "[]" and pid = "JStr ''proj-1''" and log = "[]", OF h]
  have a: "execute_steps failing_client (JStr ''proj-1'') [JDict widget_create] ((), Map.empty, []) =
     Inr ((), Map.empty, [?err])"
    using fails by (simp add: failing_client_def)
  from after a have d: "last_created (JStr ''Build the widget'') [?err] = None"
    by simp
  have c: "\<exists>r c'. execute_steps (recording failing_client) (JStr ''proj-1'') [JDict widget_start]
              (([], ()), Map.empty, [?err]) =
            Inr (([StartWorkspaceCall (JStr []) (JStr ''Build the widget'') (JStr ''codex'')
                     (JStr ''repo-uuid-123'') (JStr ''main'')], c'),
                 Map.empty, [?err, r])"
    using after by (simp add: widget_start_def dict_get_def)
  have b: "execute_steps mock_client (JStr ''proj-1'') [JDict widget_create]
       ((), [JStr ''Build the widget'' \<mapsto> JStr ''task-000''], []) =
     Inr ((), [JStr ''Build the widget'' \<mapsto> JStr ''task-001''],
          [create_task_success (JStr ''Build the widget'') (JStr ''task-001'')
             (JDict [(''issue_id'', JStr ''task-001'')])])"
    using works by (simp add: mock_client_def dict_get_def)
  from a d c b show ?thesis by blast
qed

subsection \<open>Reporter\<close>

lemma count_where_filter:
  "count_where rs k v = Inr n \<Longrightarrow>
   n = int (length (filter (\<lambda>r. py_getitem r k = Inr (JStr v)) rs))"
  by (induction rs arbitrary: n) (auto simp: and_then_Inr)

lemma count_where_status:
  "list_all success_or_error rs \<Longrightarrow>
   \<exists>s f. count_where rs ''status'' ''success'' = Inr s \<and>
         count_where rs ''status'' ''error'' = Inr f \<and> s + f = int (length rs)"
  by (induction rs) (auto simp: success_or_error_def)

text \<open>
  Claim C7 as stated fails on the results of a dry run, which \<^verbatim>\<open>main\<close> builds with the
  status \<^verbatim>\<open>skipped\<close>: for the example plan the report counts six steps, none succeeded
  and none failed.
\<close>

theorem report_counts_dry_run:
  "dry_run_results (steps parent_plan) = Inr skipped_results \<and>
   map_sum id report_summary
     (build_execution_report ''2026-11-04T12:00:00+00:00'' parent_manifest parent_plan skipped_results
        (JStr ''proj-1'')) =
   Inr \<lparr>total_steps = 6, succeeded = 0, failed = 0, report_total_tasks = 2,
        report_total_workspaces = 2\<rparr>"
  by (simp add: build_execution_report_def skipped_results_def parent_manifest_def parent_plan_def
        dict_get_def dict_getitem_def create_task_step_def start_workspace_step_def)

text \<open>
  Claim C7, amended. Whenever \<open>build_execution_report\<close> returns a report, its two counts
  are not negative, \<^verbatim>\<open>total_steps\<close> is the number of results, and
  \<^verbatim>\<open>succeeded + failed\<close> is at most that number; it is equal to it exactly when every
  result has the status \<^verbatim>\<open>success\<close> or \<^verbatim>\<open>error\<close>.
\<close>

theorem report_counts:
  assumes "build_execution_report now manifest plan rs pid = Inr r"
  shows "0 \<le> succeeded (report_summary r) \<and> 0 \<le> failed (report_summary r) \<and>
         total_steps (report_summary r) = int (length rs) \<and> results r = rs \<and>
         succeeded (report_summary r) + failed (report_summary r) \<le> int (length rs) \<and>
         (succeeded (report_summary r) + failed (report_summary r) = int (length rs)
            \<longleftrightarrow> list_all success_or_error rs)"
proof -
  let ?S = "\<lambda>x. py_getitem x ''status'' = Inr (JStr ''success'')"
  let ?E = "\<lambda>x. py_getitem x ''status'' = Inr (JStr ''error'')"
  from assms obtain s f where
    s: "count_where rs ''status'' ''success'' = Inr s" and
    f: "count_where rs ''status'' ''error'' = Inr f" and
    r: "succeeded (report_summary r) = s" "failed (report_summary r) = f"
       "total_steps (report_summary r) = int (length rs)" "results r = rs"
    by (auto simp: build_execution_report_def and_then_Inr)
  have s': "s = int (length (filter ?S rs))" and f': "f = int (length (filter ?E rs))"
    using count_where_filter [OF s] count_where_filter [OF f] by simp_all
  have sum: "s + f = int (length (filter (\<lambda>x. ?S x \<or> ?E x) rs))"
    unfolding s' f' using length_filter_disjoint [of ?S ?E rs] by simp
  have all: "list_all success_or_error rs \<longleftrightarrow> length (filter (\<lambda>x. ?S x \<or> ?E x) rs) = length rs"
    by (simp add: length_filter_eq_iff success_or_error_def [abs_def])
  show ?thesis
    using length_filter_le [of "\<lambda>x. ?S x \<or> ?E x" rs]
    by (simp add: r s' f' sum [unfolded s' f'] all)
qed

text \<open>The report of the tests: one success and one error.\<close>

theorem report_counts_witness:
  "build_execution_report ''2026-11-04T12:00:00+00:00'' parent_manifest parent_plan mixed_results
     (JStr ''proj-1'') =
   Inr \<lparr>project = JStr ''Test Project'', project_id = JStr ''proj-1'',
        executed_at = ''2026-11-04T12:00:00+00:00'', source = JDict [],
        report_summary = \<lparr>total_steps = 2, succeeded = 1, failed = 1, report_total_tasks = 2,
                           report_total_workspaces = 2\<rparr>,
        results = mixed_results\<rparr> \<and>
   list_all success_or_error mixed_results"
proof -
  have b: "build_execution_report ''2026-11-04T12:00:00+00:00'' parent_manifest parent_plan mixed_results
     (JStr ''proj-1'') =
   Inr \<lparr>project = JStr ''Test Project'', project_id = JStr ''proj-1'',
        executed_at = ''2026-11-04T12:00:00+00:00'', source = JDict [],
        report_summary = \<lparr>total_steps = 2, succeeded = 1, failed = 1, report_total_tasks = 2,
                           report_total_workspaces = 2\<rparr>,
        results = mixed_results\<rparr>"
    by (simp add: build_execution_report_def mixed_results_def parent_manifest_def parent_plan_def
          dict_get_def dict_getitem_def)
  have "list_all success_or_error mixed_results"
    using report_counts [OF b] by (simp add: mixed_results_def)
  with b show ?thesis by simp
qed

text \<open>
  On the results \<open>execute_plan\<close> returns for a plan of the data model,
  \<open>build_execution_report\<close> returns a report, and in it \<^verbatim>\<open>succeeded + failed\<close> is the
  number of steps of the plan.
\<close>

theorem report_counts_after_execute_plan:
  assumes "list_all plan_step (steps plan)"
    and "execute_plan plan cl pid c = Inr (rs, c')"
  shows "\<exists>r. build_execution_report now manifest plan rs pid = Inr r \<and>
             total_steps (report_summary r) = int (length (steps plan)) \<and>
             succeeded (report_summary r) + failed (report_summary r) = int (length (steps plan))"
proof -
  from execute_steps_both [OF assms(1), of cl pid c Map.empty "[]" "[]"] assms(2)
  have ok: "list_all success_or_error rs" and acts: "map action_of rs = map action_of (steps plan)"
    by (auto simp: execute_plan_def)
  from arg_cong [OF acts, of length] have len: "length rs = length (steps plan)"
    by simp
  from count_where_status [OF ok] obtain s f where
    "count_where rs ''status'' ''success'' = Inr s" "count_where rs ''status'' ''error'' = Inr f"
    "s + f = int (length rs)"
    by blast
  then show ?thesis
    by (simp add: build_execution_report_def len)
qed

theorem report_counts_after_execute_plan_witness:
  "list_all plan_step (steps parent_plan) \<and>
   execute_plan parent_plan failing_client (JStr ''proj-1'') () =
     Inr ([step_error ''create_task'' (JStr ''Parent'') (RuntimeError ''MCP error''),
           start_workspace_success (JStr ''Parent'') (JStr []) (JStr ''ws-001'') (JStr ''claude-code'')
             (JDict [(''workspace_id'', JStr ''ws-001'')]),
           step_error ''create_task'' (JStr ''Sub A'') (RuntimeError ''MCP error''),
           step_error ''create_task'' (JStr ''Sub B'') (RuntimeError ''MCP error''),
           step_error ''create_task'' (JStr ''Build the widget'') (RuntimeError ''MCP error''),
           start_workspace_success (JStr ''Build the widget'') (JStr []) (JStr ''ws-001'') (JStr ''codex'')
             (JDict [(''workspace_id'', JStr ''ws-001'')])], ()) \<and>
   (\<exists>r. build_execution_report ''2026-11-04T12:00:00+00:00'' parent_manifest parent_plan
          [step_error ''create_task'' (JStr ''Parent'') (RuntimeError ''MCP error''),
           start_workspace_success (JStr ''Parent'') (JStr []) (JStr ''ws-001'') (JStr ''claude-code'')
             (JDict [(''workspace_id'', JStr ''ws-001'')]),
           step_error ''create_task'' (JStr ''Sub A'') (RuntimeError ''MCP error''),
           step_error ''create_task'' (JStr ''Sub B'') (RuntimeError ''MCP error''),
           step_error ''create_task'' (JStr ''Build the widget'') (RuntimeError ''MCP error''),
           start_workspace_success (JStr ''Build the widget'') (JStr []) (JStr ''ws-001'') (JStr ''codex'')
             (JDict [(''workspace_id'', JStr ''ws-001'')])]
          (JStr ''proj-1'') = Inr r \<and>
        total_steps (report_summary r) = 6 \<and>
        succeeded (report_summary r) + failed (report_summary r) = 6)"
proof -
  have ok: "list_all plan_step (steps parent_plan)"
    by (simp add: parent_plan_def plan_step_def lookup_def create_task_step_def
          start_workspace_step_def)
  have run: "execute_plan parent_plan failing_client (JStr ''proj-1'') () =
     Inr ([step_error ''create_task'' (JStr ''Parent'') (RuntimeError ''MCP error''),
           start_workspace_success (JStr ''Parent'') (JStr []) (JStr ''ws-001'') (JStr ''claude-code'')
             (JDict [(''workspace_id'', JStr ''ws-001'')]),
           step_error ''create_task'' (JStr ''Sub A'') (RuntimeError ''MCP error''),
           step_error ''create_task'' (JStr ''Sub B'') (RuntimeError ''MCP error''),
           step_error ''create_task'' (JStr ''Build the widget'') (RuntimeError ''MCP error''),
           start_workspace_success (JStr ''Build the widget'') (JStr []) (JStr ''ws-001'') (JStr ''codex'')
             (JDict [(''workspace_id'', JStr ''ws-001'')])], ())"
    by code_simp
  have six: "int (length (steps parent_plan)) = 6"
    by (simp add: parent_plan_def)
  from report_counts_after_execute_plan
    [OF ok run, of "''2026-11-04T12:00:00+00:00''" parent_manifest]
  show ?thesis
    unfolding six using ok run by simp
qed

end
